theory Spec2Isabelle
  imports Main
begin

section \<open>The generate-video route of essentially-sports-reels\<close>

text \<open>
  The route handler \<open>POST\<close> of \<^verbatim>\<open>src/app/page.tsx\<close> (second document of the file) and
  the four helpers it calls are embedded as state-passing functions. Every call that
  leaves the process (Gemini, Text-to-Speech, RunwayML, Cloud Storage, HTTP) is answered
  by a record of backend functions and is appended to a trace of calls; a thrown
  JavaScript error is the left injection of a sum. The polling loop of
  \<open>generateVideoFromRunwayML\<close> has no bound in the source, so it is given a number of loop
  iterations to observe: the answer \<open>None\<close> means that the call has not returned after
  that many iterations, and the world returned with it is the state reached so far. The
  same answer is given by a promise that is never settled.
\<close>

subsection \<open>Values\<close>

text \<open>
  A thrown value. \<open>Error m\<close> is \<^verbatim>\<open>new Error(m)\<close>, whose message is not an enumerable
  property; \<open>Thrown j\<close> is any other value a backend call rejects with, given by the
  text that \<^verbatim>\<open>JSON.stringify\<close> makes of it.
\<close>

datatype exn = Error string | Thrown string

text \<open>\<^verbatim>\<open>JSON.stringify\<close> of a thrown value: an \<^verbatim>\<open>Error\<close> has no enumerable property.\<close>

fun stringify :: "exn \<Rightarrow> string" where
  "stringify (Error m) = ''{}''"
| "stringify (Thrown j) = j"

text \<open>What is uploaded: a JavaScript string, or a Buffer of bytes.\<close>

datatype content = Text string | Buffer string

text \<open>The last parameter of \<open>uploadToGCPStorage\<close>: \<^verbatim>\<open>'temp' | 'reel'\<close>.\<close>

datatype category = Temp | Reel

text \<open>The task object of \<^verbatim>\<open>client.tasks.retrieve\<close>: only the two fields the code reads.\<close>

record task =
  status :: string
  task_output :: "string list option"

text \<open>The response of node-fetch, with the fields the code reads.\<close>

record fetch_response =
  ok :: bool
  resp_status :: nat
  statusText :: string
  body_text :: string

text \<open>
  The response of \<^verbatim>\<open>https.get\<close>: its status code, the chunks of its \<^verbatim>\<open>data\<close> events in
  order, and the error of its \<^verbatim>\<open>error\<close> event if the stream ends with one instead of
  \<^verbatim>\<open>end\<close>.
\<close>

record https_response =
  statusCode :: nat
  chunks :: "string list"
  stream_error :: "exn option"

text \<open>
  What \<^verbatim>\<open>https.get(videoUrl, callback)\<close> does: it throws at once (a malformed URL), or the
  request fails before there is a response (its \<^verbatim>\<open>error\<close> event, for which the code
  registers no listener, so the callback never runs), or the callback is given a response.
\<close>

datatype https_outcome = Throws exn | RequestError exn | Response https_response

text \<open>The parsed request body: \<^verbatim>\<open>const { sports, photo } = body\<close>; a missing field is \<open>None\<close>.\<close>

record body =
  sports :: "string option"
  photo :: "string option"

text \<open>
  The JSON answers of the route: \<^verbatim>\<open>NextResponse.json({ error }, { status })\<close> and
  \<^verbatim>\<open>NextResponse.json({ status, data, errors })\<close>, where \<open>data\<close> is \<^verbatim>\<open>{}\<close> or
  \<^verbatim>\<open>{ success: true, scriptURL, voiceoverURL, videoURL }\<close> and \<open>errors\<close> is \<^verbatim>\<open>{}\<close> or
  \<^verbatim>\<open>{ error }\<close>. The answer is what the caller receives, so the thrown value of
  \<open>errors\<close> is there as its JSON text. The number of \<open>Envelope\<close> is the field \<open>status\<close>
  of the body.
\<close>

datatype data = NoData | Success (scriptURL: string) (voiceoverURL: string) (videoURL: string)

datatype response = ErrorJson string nat | Envelope nat data "string option"

text \<open>
  The HTTP status of an answer: the \<open>status\<close> given to \<^verbatim>\<open>NextResponse.json\<close>, and 200 when
  it is called with the body alone, as it is for both envelopes.
\<close>

fun http_status :: "response \<Rightarrow> nat" where
  "http_status (ErrorJson _ st) = st"
| "http_status (Envelope _ _ _) = 200"

subsection \<open>The world outside the process\<close>

datatype event =
    GenerateContent string
  | Save string string content
  | MakePublic string
  | Fetch string
  | SynthesizeSpeech string
  | ImageToVideoCreate string
  | Sleep nat
  | TasksRetrieve string
  | HttpsGet string

text \<open>An object of the bucket, by its path.\<close>

record gcp_object =
  contentType :: string
  payload :: content
  isPublic :: bool

record world =
  events :: "event list"
  bucket :: "string \<rightharpoonup> gcp_object"

text \<open>
  The answers of the backends. \<open>tasks_retrieve\<close> is asked the same question many times, so
  its answer also depends on the number of status queries issued before.
\<close>

record backends =
  request_json :: "exn + body"
  date_now :: nat
  models_generateContent :: "string \<Rightarrow> exn + string option"
  node_fetch :: "string \<Rightarrow> exn + fetch_response"
  synthesizeSpeech :: "string \<Rightarrow> exn + content option"
  imageToVideo_create :: "string \<Rightarrow> exn + string"
  tasks_retrieve :: "nat \<Rightarrow> string \<Rightarrow> exn + task"
  https_get :: "string \<Rightarrow> https_outcome"
  file_save :: "string \<Rightarrow> string \<Rightarrow> content \<Rightarrow> exn option"
  file_makePublic :: "string \<Rightarrow> exn option"

definition issue :: "event \<Rightarrow> world \<Rightarrow> world" where
  "issue ev w = w\<lparr>events := events w @ [ev]\<rparr>"

fun is_retrieve :: "event \<Rightarrow> bool" where
  "is_retrieve (TasksRetrieve _) = True"
| "is_retrieve _ = False"

fun is_https_get :: "event \<Rightarrow> bool" where
  "is_https_get (HttpsGet _) = True"
| "is_https_get _ = False"

fun is_sleep :: "event \<Rightarrow> bool" where
  "is_sleep (Sleep _) = True"
| "is_sleep _ = False"

fun is_fetch :: "event \<Rightarrow> bool" where
  "is_fetch (Fetch _) = True"
| "is_fetch _ = False"

fun is_store :: "event \<Rightarrow> bool" where
  "is_store (Save _ _ _) = True"
| "is_store (MakePublic _) = True"
| "is_store _ = False"

text \<open>The number of status queries issued so far.\<close>

definition polls :: "world \<Rightarrow> nat" where
  "polls w = length (filter is_retrieve (events w))"

text \<open>The calls issued between an earlier world and a later one.\<close>

definition issued :: "world \<Rightarrow> world \<Rightarrow> event list" where
  "issued w w' = drop (length (events w)) (events w')"

subsection \<open>JavaScript strings\<close>

text \<open>\<^verbatim>\<open>!s\<close> for a string that may be undefined, and for an audio content.\<close>

definition falsy :: "string option \<Rightarrow> bool" where
  "falsy s = (s = None \<or> s = Some [])"

definition falsy_content :: "content option \<Rightarrow> bool" where
  "falsy_content c = (c = None \<or> c = Some (Text []))"

text \<open>A non-negative integer inside a template literal: its decimal digits.\<close>

definition digit :: "nat \<Rightarrow> char" where
  "digit d = ''0123456789'' ! d"

fun string_of_nat :: "nat \<Rightarrow> string" where
  "string_of_nat n =
     (if n < 10 then [digit n] else string_of_nat (n div 10) @ [digit (n mod 10)])"

declare string_of_nat.simps [simp del]

subsection \<open>Google Cloud Storage\<close>

definition bucketName :: string where
  "bucketName = ''sehban''"

definition directory :: "category \<Rightarrow> string" where
  "directory generatedFileType = (if generatedFileType = Temp then ''temp'' else ''reel'')"

definition filePath :: "category \<Rightarrow> string \<Rightarrow> string" where
  "filePath generatedFileType fileName = directory generatedFileType @ ''/'' @ fileName"

definition publicUrl :: "category \<Rightarrow> string \<Rightarrow> string" where
  "publicUrl generatedFileType fileName =
     ''https://storage.googleapis.com/'' @ bucketName @ ''/'' @ filePath generatedFileType fileName"

text \<open>
  \<^verbatim>\<open>gcpFile.save\<close> writes the object at the path, replacing what was there;
  \<^verbatim>\<open>gcpFile.makePublic\<close> marks it public. Either may reject, and the error is rethrown.
\<close>

definition uploadToGCPStorage ::
  "backends \<Rightarrow> string \<Rightarrow> string \<Rightarrow> content \<Rightarrow> category \<Rightarrow> world \<Rightarrow> (exn + string) \<times> world" where
  "uploadToGCPStorage b fileName fileType fileContent generatedFileType w =
     (if bucketName = [] then (Inl (Error ''GCP_BUCKET_NAME environment variable is not set.''), w)
      else
        let path = filePath generatedFileType fileName;
            w1 = issue (Save path fileType fileContent) w
        in case file_save b path fileType fileContent of
             Some err \<Rightarrow> (Inl err, w1)
           | None \<Rightarrow>
               let w2 = w1\<lparr>bucket := (bucket w1)(path \<mapsto>
                          \<lparr>contentType = fileType, payload = fileContent, isPublic = False\<rparr>)\<rparr>;
                   w3 = issue (MakePublic path) w2
               in case file_makePublic b path of
                    Some err \<Rightarrow> (Inl err, w3)
                  | None \<Rightarrow>
                      (Inr (publicUrl generatedFileType fileName),
                       w3\<lparr>bucket := (bucket w3)(path \<mapsto>
                          \<lparr>contentType = fileType, payload = fileContent, isPublic = True\<rparr>)\<rparr>))"

subsection \<open>Gemini\<close>

definition prompt :: "string \<Rightarrow> string" where
  "prompt sp =
     ''Write a creative and engaging short paragraph about '' @ sp @
     '' history in 100 characters. '' @ [CHR 0x0A] @
     ''      The tone should be energetic and fast-paced, suitable for a sports highlight reel. Do not use any special characters. Write a few lines only.''"

definition generateVideoScriptUsingGemini ::
  "backends \<Rightarrow> string \<Rightarrow> string \<Rightarrow> world \<Rightarrow> (exn + string) \<times> world" where
  "generateVideoScriptUsingGemini b sp tempScriptName w =
     (let w1 = issue (GenerateContent (prompt sp)) w
      in case models_generateContent b (prompt sp) of
           Inl err \<Rightarrow> (Inl err, w1)
         | Inr script \<Rightarrow>
             if falsy script
             then (Inl (Error ''Failed to generate a script. The response is empty.''), w1)
             else uploadToGCPStorage b tempScriptName ''text/plain'' (Text (the script)) Temp w1)"

subsection \<open>Google Text-to-Speech\<close>

definition generateVoiceoverUsingGoogleTTS ::
  "backends \<Rightarrow> string \<Rightarrow> string \<Rightarrow> world \<Rightarrow> (exn + string) \<times> world" where
  "generateVoiceoverUsingGoogleTTS b url outputFileName w =
     (let w1 = issue (Fetch url) w
      in case node_fetch b url of
           Inl err \<Rightarrow> (Inl err, w1)
         | Inr resp \<Rightarrow>
             if \<not> ok resp
             then (Inl (Error (''Failed to fetch script. Status: '' @ string_of_nat (resp_status resp) @
                               '', Error: '' @ statusText resp)), w1)
             else if body_text resp = []
             then (Inl (Error ''Failed to fetch script. The response is empty.''), w1)
             else
               let w2 = issue (SynthesizeSpeech (body_text resp)) w1
               in case synthesizeSpeech b (body_text resp) of
                    Inl err \<Rightarrow> (Inl err, w2)
                  | Inr audioContent \<Rightarrow>
                      if falsy_content audioContent
                      then (Inl (Error ''Audio content is empty.''), w2)
                      else uploadToGCPStorage b outputFileName ''audio/mpeg'' (the audioContent) Temp w2)"

subsection \<open>RunwayML\<close>

text \<open>
  The promise around \<^verbatim>\<open>https.get\<close>. It is rejected by a throw of \<^verbatim>\<open>https.get\<close> itself, by
  a status code other than 200 and by the \<^verbatim>\<open>error\<close> event of the response; it is resolved
  by the \<^verbatim>\<open>end\<close> event of the response. An error of the request reaches neither
  \<^verbatim>\<open>resolve\<close> nor \<^verbatim>\<open>reject\<close>: the promise is never settled, which is the answer \<open>None\<close>,
  whatever the number of loop iterations observed.
\<close>

definition fetchVideoAsBuffer ::
  "backends \<Rightarrow> string \<Rightarrow> world \<Rightarrow> (exn + string) option \<times> world" where
  "fetchVideoAsBuffer b videoUrl w =
     (let w1 = issue (HttpsGet videoUrl) w
      in case https_get b videoUrl of
           Throws err \<Rightarrow> (Some (Inl err), w1)
         | RequestError err \<Rightarrow> (None, w1)
         | Response resp \<Rightarrow>
             if statusCode resp \<noteq> 200
             then (Some (Inl (Error (''Failed to fetch video. Status code: '' @
                                     string_of_nat (statusCode resp)))), w1)
             else (case stream_error resp of
                     Some err \<Rightarrow> (Some (Inl err), w1)
                   | None \<Rightarrow> (Some (Inr (concat (chunks resp))), w1)))"

text \<open>
  The \<^verbatim>\<open>do ... while\<close> loop: the body runs, then the status is tested. The first argument
  is the number of iterations observed.
\<close>

fun poll :: "nat \<Rightarrow> backends \<Rightarrow> string \<Rightarrow> world \<Rightarrow> (exn + task) option \<times> world" where
  "poll 0 b taskId w = (None, w)"
| "poll (Suc n) b taskId w =
     (let w1 = issue (Sleep 10000) w;
          w2 = issue (TasksRetrieve taskId) w1
      in case tasks_retrieve b (polls w) taskId of
           Inl err \<Rightarrow> (Some (Inl err), w2)
         | Inr t \<Rightarrow>
             if \<not> (status t \<in> set [''SUCCEEDED'', ''FAILED''])
             then poll n b taskId w2
             else (Some (Inr t), w2))"

text \<open>\<^verbatim>\<open>task.output ? task.output[0] : null\<close>\<close>

definition first_output :: "task \<Rightarrow> string option" where
  "first_output t =
     (case task_output t of
        None \<Rightarrow> None
      | Some out \<Rightarrow> (case out of [] \<Rightarrow> None | u # _ \<Rightarrow> Some u))"

definition generateVideoFromRunwayML ::
  "nat \<Rightarrow> backends \<Rightarrow> string \<Rightarrow> string \<Rightarrow> string \<Rightarrow> world \<Rightarrow> (exn + string) option \<times> world" where
  "generateVideoFromRunwayML n b sp ph tempVideoName w =
     (let w0 = issue (ImageToVideoCreate ph) w
      in case imageToVideo_create b ph of
           Inl err \<Rightarrow> (Some (Inl err), w0)
         | Inr taskId \<Rightarrow>
             (case poll n b taskId w0 of
                (None, w1) \<Rightarrow> (None, w1)
              | (Some (Inl err), w1) \<Rightarrow> (Some (Inl err), w1)
              | (Some (Inr t), w1) \<Rightarrow>
                  if status t = ''SUCCEEDED''
                  then
                    let videoUrl = first_output t
                    in if falsy videoUrl
                       then (Some (Inl (Error ''Task output is undefined or empty.'')), w1)
                       else (case fetchVideoAsBuffer b (the videoUrl) w1 of
                               (None, w2) \<Rightarrow> (None, w2)
                             | (Some (Inl err), w2) \<Rightarrow> (Some (Inl err), w2)
                             | (Some (Inr videoBuffer), w2) \<Rightarrow>
                                 (case uploadToGCPStorage b tempVideoName ''video/mp4''
                                         (Buffer videoBuffer) Temp w2 of
                                    (r, w3) \<Rightarrow> (Some r, w3)))
                  else (Some (Inl (Error ''Video generation failed.'')), w1)))"

subsection \<open>The route handler\<close>

definition randomId :: "backends \<Rightarrow> string" where
  "randomId b = string_of_nat (date_now b)"

definition tempScriptName :: "backends \<Rightarrow> string" where
  "tempScriptName b = ''script-'' @ randomId b @ ''.txt''"

definition tempVideoName :: "backends \<Rightarrow> string" where
  "tempVideoName b = ''video-'' @ randomId b @ ''.mp4''"

definition tempAudioName :: "backends \<Rightarrow> string" where
  "tempAudioName b = ''audio-'' @ randomId b @ ''.mp3''"

text \<open>
  The whole body is inside \<^verbatim>\<open>try\<close>: whatever is thrown, by \<^verbatim>\<open>request.json()\<close> or by a
  stage, is answered by \<^verbatim>\<open>NextResponse.json({ status: 500, data: {}, errors: { error } })\<close>,
  in which the thrown value is serialised. A stage that never settles leaves the request
  without an answer.
\<close>

definition POST :: "nat \<Rightarrow> backends \<Rightarrow> world \<Rightarrow> response option \<times> world" where
  "POST n b w =
     (case request_json b of
        Inl err \<Rightarrow> (Some (Envelope 500 NoData (Some (stringify err))), w)
      | Inr bd \<Rightarrow>
          if falsy (sports bd) \<or> falsy (photo bd)
          then (Some (ErrorJson ''issue in params'' 400), w)
          else
            (case generateVideoScriptUsingGemini b (the (sports bd)) (tempScriptName b) w of
               (Inl err, w1) \<Rightarrow> (Some (Envelope 500 NoData (Some (stringify err))), w1)
             | (Inr sURL, w1) \<Rightarrow>
                 (case generateVoiceoverUsingGoogleTTS b sURL (tempAudioName b) w1 of
                    (Inl err, w2) \<Rightarrow> (Some (Envelope 500 NoData (Some (stringify err))), w2)
                  | (Inr vURL, w2) \<Rightarrow>
                      (case generateVideoFromRunwayML n b (the (sports bd)) (the (photo bd))
                              (tempVideoName b) w2 of
                         (None, w3) \<Rightarrow> (None, w3)
                       | (Some (Inl err), w3) \<Rightarrow> (Some (Envelope 500 NoData (Some (stringify err))), w3)
                       | (Some (Inr vidURL), w3) \<Rightarrow>
                           (Some (Envelope 200 (Success sURL vURL vidURL) None), w3)))))"


subsection \<open>Traces and example backends\<close>

text \<open>The calls of \<open>k\<close> iterations of the polling loop for a task.\<close>

definition poll_calls :: "nat \<Rightarrow> string \<Rightarrow> event list" where
  "poll_calls k taskId = concat (replicate k [Sleep 10000, TasksRetrieve taskId])"

text \<open>
  The end-to-end scenario: the sport is cricket, the job has id 42 and is reported
  RUNNING twice and then SUCCEEDED with one output; every backend call succeeds.
\<close>

definition cricket_backends :: backends where
  "cricket_backends =
     \<lparr>request_json = Inr \<lparr>sports = Some ''cricket'', photo = Some ''data:image/jpeg;base64,AAAA''\<rparr>,
      date_now = 1746000000042,
      models_generateContent = (\<lambda>_. Inr (Some ''Cricket began in southern England'')),
      node_fetch = (\<lambda>_. Inr \<lparr>ok = True, resp_status = 200, statusText = ''OK'',
                              body_text = ''Cricket began in southern England''\<rparr>),
      synthesizeSpeech = (\<lambda>_. Inr (Some (Buffer ''ID3''))),
      imageToVideo_create = (\<lambda>_. Inr ''42''),
      tasks_retrieve = (\<lambda>k _. Inr (if k < 2 then \<lparr>status = ''RUNNING'', task_output = None\<rparr>
                                    else \<lparr>status = ''SUCCEEDED'',
                                          task_output = Some [''https://cdn/example.mp4'']\<rparr>)),
      https_get = (\<lambda>_. Response \<lparr>statusCode = 200, chunks = [''ftyp'', ''mdat''],
                                  stream_error = None\<rparr>),
      file_save = (\<lambda>_ _ _. None),
      file_makePublic = (\<lambda>_. None)\<rparr>"

text \<open>A world in which nothing has been called and the bucket is empty.\<close>

definition idle :: world where
  "idle = \<lparr>events = [], bucket = Map.empty\<rparr>"

text \<open>The same backends with a job that is reported RUNNING for ever.\<close>

definition stuck_backends :: backends where
  "stuck_backends =
     cricket_backends\<lparr>tasks_retrieve := (\<lambda>_ _. Inr \<lparr>status = ''RUNNING'', task_output = None\<rparr>)\<rparr>"

text \<open>The same backends with a job that is already SUCCEEDED at its first status query.\<close>

definition done_backends :: backends where
  "done_backends =
     cricket_backends\<lparr>tasks_retrieve :=
       (\<lambda>_ _. Inr \<lparr>status = ''SUCCEEDED'', task_output = Some [''https://cdn/example.mp4'']\<rparr>)\<rparr>"

text \<open>The same backends with a job that is reported SUCCEEDED without any output.\<close>

definition no_output_backends :: backends where
  "no_output_backends =
     cricket_backends\<lparr>tasks_retrieve :=
       (\<lambda>k _. Inr (if k < 2 then \<lparr>status = ''RUNNING'', task_output = None\<rparr>
                     else \<lparr>status = ''SUCCEEDED'', task_output = None\<rparr>))\<rparr>"

text \<open>The same backends with a job that is reported RUNNING twice and then FAILED.\<close>

definition failed_backends :: backends where
  "failed_backends =
     cricket_backends\<lparr>tasks_retrieve :=
       (\<lambda>k _. Inr (if k < 2 then \<lparr>status = ''RUNNING'', task_output = None\<rparr>
                     else \<lparr>status = ''FAILED'', task_output = None\<rparr>))\<rparr>"

text \<open>The same backends with a CDN that answers the download with status 203 and the full body.\<close>

definition partial_backends :: backends where
  "partial_backends =
     cricket_backends\<lparr>https_get :=
       (\<lambda>_. Response \<lparr>statusCode = 203, chunks = [''ftyp'', ''mdat''], stream_error = None\<rparr>)\<rparr>"

text \<open>The same backends with a CDN that refuses the connection of the download.\<close>

definition refused_backends :: backends where
  "refused_backends =
     cricket_backends\<lparr>https_get := (\<lambda>_. RequestError (Error ''connect ECONNREFUSED 203.0.113.7:443''))\<rparr>"

text \<open>The same backends with a Gemini that answers without any text.\<close>

definition silent_backends :: backends where
  "silent_backends = cricket_backends\<lparr>models_generateContent := (\<lambda>_. Inr None)\<rparr>"

text \<open>
  An invariant of the proofs, not part of the program: from \<open>w\<close> to \<open>w'\<close> the trace has only
  been extended, every object of the bucket is still there, and so is every object whose
  save was accepted in between.
\<close>

definition kept :: "backends \<Rightarrow> world \<Rightarrow> world \<Rightarrow> bool" where
  "kept b w w' \<longleftrightarrow>
     (\<exists>new. events w' = events w @ new \<and>
        (\<forall>p ft c. Save p ft c \<in> set new \<longrightarrow> file_save b p ft c = None \<longrightarrow> bucket w' p \<noteq> None)) \<and>
     (\<forall>p. bucket w p \<noteq> None \<longrightarrow> bucket w' p \<noteq> None)"

text \<open>
  A second request, for another sport and photo, whose clock reading is the same
  millisecond as that of the cricket request.
\<close>

definition football_backends :: backends where
  "football_backends =
     cricket_backends\<lparr>
       request_json := Inr \<lparr>sports = Some ''football'', photo = Some ''data:image/jpeg;base64,BBBB''\<rparr>,
       models_generateContent := (\<lambda>_. Inr (Some ''Football took shape in England''))\<rparr>"

section \<open>Properties\<close>

subsection \<open>Traces and the bucket\<close>

lemma events_issue [simp]: "events (issue ev w) = events w @ [ev]"
  by (simp add: issue_def)

lemma bucket_issue [simp]: "bucket (issue ev w) = bucket w"
  by (simp add: issue_def)

lemma polls_issue [simp]: "polls (issue ev w) = (if is_retrieve ev then Suc (polls w) else polls w)"
  by (simp add: polls_def)

lemma issued_append: "events w' = events w @ new \<Longrightarrow> issued w w' = new"
  by (simp add: issued_def)

lemma upload_accepted:
  assumes "file_save b (filePath g fn) ft c = None" and "file_makePublic b (filePath g fn) = None"
  shows "uploadToGCPStorage b fn ft c g w =
           (Inr (publicUrl g fn),
            \<lparr>events = events w @ [Save (filePath g fn) ft c, MakePublic (filePath g fn)],
             bucket = (bucket w)(filePath g fn \<mapsto> \<lparr>contentType = ft, payload = c, isPublic = True\<rparr>)\<rparr>)"
  using assms by (simp add: uploadToGCPStorage_def bucketName_def issue_def Let_def)

lemma upload_returns:
  assumes "uploadToGCPStorage b fn ft c g w = (Inr u, w')"
  shows "u = publicUrl g fn \<and> file_save b (filePath g fn) ft c = None \<and>
         file_makePublic b (filePath g fn) = None \<and>
         w' = \<lparr>events = events w @ [Save (filePath g fn) ft c, MakePublic (filePath g fn)],
               bucket = (bucket w)(filePath g fn \<mapsto> \<lparr>contentType = ft, payload = c, isPublic = True\<rparr>)\<rparr>"
  using assms
  by (auto simp: uploadToGCPStorage_def bucketName_def issue_def Let_def split: option.splits)

lemma upload_frame:
  assumes "uploadToGCPStorage b fn ft c g w = (r, w')"
  shows "\<exists>new. events w' = events w @ new \<and> (\<forall>ev\<in>set new. is_store ev) \<and>
           (\<forall>p. bucket w p \<noteq> None \<longrightarrow> bucket w' p \<noteq> None)"
  using assms
  by (auto simp: uploadToGCPStorage_def bucketName_def issue_def Let_def split: option.splits)


lemma store_not_other:
  "is_store ev \<Longrightarrow> \<not> is_fetch ev \<and> \<not> is_retrieve ev \<and> \<not> is_https_get ev \<and> \<not> is_sleep ev"
  by (cases ev) simp_all

lemma script_returns:
  assumes "generateVideoScriptUsingGemini b sp name w = (Inr u, w')"
  shows "\<exists>s. models_generateContent b (prompt sp) = Inr (Some s) \<and> s \<noteq> [] \<and>
             u = publicUrl Temp name \<and>
             w' = \<lparr>events = events w @ [GenerateContent (prompt sp),
                                          Save (filePath Temp name) ''text/plain'' (Text s),
                                          MakePublic (filePath Temp name)],
                   bucket = (bucket w)(filePath Temp name \<mapsto>
                              \<lparr>contentType = ''text/plain'', payload = Text s, isPublic = True\<rparr>)\<rparr>"
proof -
  from assms have "\<exists>s. models_generateContent b (prompt sp) = Inr (Some s) \<and> s \<noteq> [] \<and>
      uploadToGCPStorage b name ''text/plain'' (Text s) Temp (issue (GenerateContent (prompt sp)) w) = (Inr u, w')"
    by (auto simp: generateVideoScriptUsingGemini_def Let_def falsy_def split: sum.splits if_splits)
  then obtain s where s: "models_generateContent b (prompt sp) = Inr (Some s)" "s \<noteq> []"
    and up: "uploadToGCPStorage b name ''text/plain'' (Text s) Temp (issue (GenerateContent (prompt sp)) w) = (Inr u, w')"
    by blast
  from upload_returns [OF up] s show ?thesis by simp
qed

lemma script_frame:
  assumes "generateVideoScriptUsingGemini b sp name w = (r, w')"
  shows "\<exists>new. events w' = events w @ new \<and> (\<forall>ev\<in>set new. \<not> is_fetch ev) \<and>
           (\<forall>p. bucket w p \<noteq> None \<longrightarrow> bucket w' p \<noteq> None)"
proof (cases "\<exists>s. models_generateContent b (prompt sp) = Inr (Some s) \<and> s \<noteq> []")
  case True
  then obtain s where s: "models_generateContent b (prompt sp) = Inr (Some s)" "s \<noteq> []" by blast
  with assms have "uploadToGCPStorage b name ''text/plain'' (Text s) Temp (issue (GenerateContent (prompt sp)) w) = (r, w')"
    by (simp add: generateVideoScriptUsingGemini_def Let_def falsy_def)
  from upload_frame [OF this] obtain new where
    "events w' = events (issue (GenerateContent (prompt sp)) w) @ new" "\<forall>ev\<in>set new. is_store ev"
    "\<forall>p. bucket (issue (GenerateContent (prompt sp)) w) p \<noteq> None \<longrightarrow> bucket w' p \<noteq> None" by blast
  then have "events w' = events w @ (GenerateContent (prompt sp) # new)"
    "\<forall>ev\<in>set (GenerateContent (prompt sp) # new). \<not> is_fetch ev"
    "\<forall>p. bucket w p \<noteq> None \<longrightarrow> bucket w' p \<noteq> None"
    by (auto dest: store_not_other)
  then show ?thesis by blast
next
  case False
  with assms have "w' = issue (GenerateContent (prompt sp)) w"
    by (auto simp: generateVideoScriptUsingGemini_def Let_def falsy_def split: sum.splits if_splits)
  then have "events w' = events w @ [GenerateContent (prompt sp)]" "bucket w' = bucket w" by simp_all
  then show ?thesis by auto
qed


lemma voice_cases:
  assumes "generateVoiceoverUsingGoogleTTS b url name w = (r, w')"
  shows "(\<exists>err. r = Inl err \<and> w' = issue (Fetch url) w) \<or>
         (\<exists>err t. r = Inl err \<and> w' = issue (SynthesizeSpeech t) (issue (Fetch url) w)) \<or>
         (\<exists>t c. uploadToGCPStorage b name ''audio/mpeg'' c Temp
                   (issue (SynthesizeSpeech t) (issue (Fetch url) w)) = (r, w'))"
  using assms
  by (auto simp: generateVoiceoverUsingGoogleTTS_def Let_def split: sum.splits if_splits)

lemma voice_returns:
  assumes "generateVoiceoverUsingGoogleTTS b url name w = (Inr v, w')"
  shows "v = publicUrl Temp name"
  using voice_cases [OF assms] by (auto dest: upload_returns)

lemma voice_frame:
  assumes "generateVoiceoverUsingGoogleTTS b url name w = (r, w')"
  shows "\<exists>rest. events w' = events w @ Fetch url # rest \<and> (\<forall>ev\<in>set rest. \<not> is_fetch ev) \<and>
           (\<forall>p. bucket w p \<noteq> None \<longrightarrow> bucket w' p \<noteq> None)"
proof -
  consider (a) "w' = issue (Fetch url) w"
    | (b) t where "w' = issue (SynthesizeSpeech t) (issue (Fetch url) w)"
    | (c) t c where "uploadToGCPStorage b name ''audio/mpeg'' c Temp
                   (issue (SynthesizeSpeech t) (issue (Fetch url) w)) = (r, w')"
    using voice_cases [OF assms] by blast
  then show ?thesis
  proof cases
    case a
    then show ?thesis by simp
  next
    case b
    then show ?thesis by simp
  next
    case c
    from upload_frame [OF c] obtain new where
      "events w' = events (issue (SynthesizeSpeech t) (issue (Fetch url) w)) @ new"
      "\<forall>ev\<in>set new. is_store ev"
      "\<forall>p. bucket (issue (SynthesizeSpeech t) (issue (Fetch url) w)) p \<noteq> None \<longrightarrow> bucket w' p \<noteq> None"
      by blast
    then have "events w' = events w @ Fetch url # (SynthesizeSpeech t # new)"
      "\<forall>ev\<in>set (SynthesizeSpeech t # new). \<not> is_fetch ev"
      "\<forall>p. bucket w p \<noteq> None \<longrightarrow> bucket w' p \<noteq> None"
      by (auto dest: store_not_other)
    then show ?thesis by blast
  qed
qed

lemma fetch_video_world:
  "snd (fetchVideoAsBuffer b u w) = issue (HttpsGet u) w"
  by (simp add: fetchVideoAsBuffer_def Let_def split: https_outcome.splits option.splits)

lemma poll_calls_simps [simp]:
  "poll_calls 0 tid = []"
  "poll_calls (Suc k) tid = Sleep 10000 # TasksRetrieve tid # poll_calls k tid"
  by (simp_all add: poll_calls_def)

lemma retrieves_poll_calls [simp]: "length (filter is_retrieve (poll_calls k tid)) = k"
  by (induction k) simp_all

lemma https_poll_calls [simp]: "filter is_https_get (poll_calls k tid) = []"
  by (induction k) simp_all

lemma poll_trace:
  "poll n b tid w = (r, w') \<Longrightarrow>
     \<exists>k. k \<le> n \<and> w' = w\<lparr>events := events w @ poll_calls k tid\<rparr> \<and>
         (r \<noteq> None \<longrightarrow> 0 < k) \<and> (r = None \<longrightarrow> k = n)"
proof (induction n arbitrary: w)
  case 0
  then show ?case by simp
next
  case (Suc n)
  let ?w2 = "issue (TasksRetrieve tid) (issue (Sleep 10000) w)"
  have ext: "?w2\<lparr>events := events ?w2 @ poll_calls k tid\<rparr> = w\<lparr>events := events w @ poll_calls (Suc k) tid\<rparr>" for k
    by (simp add: issue_def)
  show ?case
  proof (cases "\<exists>t. tasks_retrieve b (polls w) tid = Inr t \<and> \<not> (status t \<in> set [''SUCCEEDED'', ''FAILED''])")
    case True
    with Suc.prems have "poll n b tid ?w2 = (r, w')" by (auto simp: Let_def)
    from Suc.IH [OF this] obtain k where "k \<le> n" "w' = ?w2\<lparr>events := events ?w2 @ poll_calls k tid\<rparr>"
      "r \<noteq> None \<longrightarrow> 0 < k" "r = None \<longrightarrow> k = n" by blast
    then have "Suc k \<le> Suc n \<and> w' = w\<lparr>events := events w @ poll_calls (Suc k) tid\<rparr> \<and>
         (r \<noteq> None \<longrightarrow> 0 < Suc k) \<and> (r = None \<longrightarrow> Suc k = Suc n)"
      using ext by simp
    then show ?thesis by blast
  next
    case False
    with Suc.prems have "r \<noteq> None \<and> w' = ?w2"
      by (auto simp: Let_def split: sum.splits if_splits)
    then have "Suc 0 \<le> Suc n \<and> w' = w\<lparr>events := events w @ poll_calls (Suc 0) tid\<rparr> \<and>
         (r \<noteq> None \<longrightarrow> 0 < Suc 0) \<and> (r = None \<longrightarrow> Suc 0 = Suc n)"
      by (auto simp: issue_def)
    then show ?thesis by blast
  qed
qed

lemma cricket_sel [simp]:
  "request_json cricket_backends = Inr \<lparr>sports = Some ''cricket'', photo = Some ''data:image/jpeg;base64,AAAA''\<rparr>"
  "date_now cricket_backends = 1746000000042"
  "models_generateContent cricket_backends p = Inr (Some ''Cricket began in southern England'')"
  "node_fetch cricket_backends u = Inr \<lparr>ok = True, resp_status = 200, statusText = ''OK'',
                              body_text = ''Cricket began in southern England''\<rparr>"
  "synthesizeSpeech cricket_backends t = Inr (Some (Buffer ''ID3''))"
  "imageToVideo_create cricket_backends ph = Inr ''42''"
  "tasks_retrieve cricket_backends k i = Inr (if k < 2 then \<lparr>status = ''RUNNING'', task_output = None\<rparr>
                                    else \<lparr>status = ''SUCCEEDED'', task_output = Some [''https://cdn/example.mp4'']\<rparr>)"
  "https_get cricket_backends u =
     Response \<lparr>statusCode = 200, chunks = [''ftyp'', ''mdat''], stream_error = None\<rparr>"
  "file_save cricket_backends p ft c = None"
  "file_makePublic cricket_backends p = None"
  by (simp_all add: cricket_backends_def)

lemma paths:
  "filePath Temp fn = ''temp/'' @ fn"
  "filePath Reel fn = ''reel/'' @ fn"
  "publicUrl Temp fn = ''https://storage.googleapis.com/sehban/temp/'' @ fn"
  "publicUrl Reel fn = ''https://storage.googleapis.com/sehban/reel/'' @ fn"
  by (simp_all add: filePath_def publicUrl_def directory_def bucketName_def)

subsection \<open>The polling loop and the video stage\<close>

lemma poll_step_continue:
  assumes "tasks_retrieve b (polls w) tid = Inr t"
      and "\<not> (status t \<in> set [''SUCCEEDED'', ''FAILED''])"
  shows "poll (Suc n) b tid w = poll n b tid (issue (TasksRetrieve tid) (issue (Sleep 10000) w))"
  using assms by (simp add: Let_def)

lemma poll_step_done:
  assumes "tasks_retrieve b (polls w) tid = Inr t"
      and "status t \<in> set [''SUCCEEDED'', ''FAILED'']"
  shows "poll (Suc n) b tid w = (Some (Inr t), issue (TasksRetrieve tid) (issue (Sleep 10000) w))"
  using assms by (simp add: Let_def)

lemma issue_twice_then:
  "(issue e2 (issue e1 w))\<lparr>events := events (issue e2 (issue e1 w)) @ es\<rparr> =
     w\<lparr>events := events w @ e1 # e2 # es\<rparr>"
  by (simp add: issue_def)

lemma poll_finds_terminal:
  assumes "\<forall>j<N. \<exists>t. tasks_retrieve b (polls w + j) tid = Inr t \<and>
                      \<not> (status t \<in> set [''SUCCEEDED'', ''FAILED''])"
      and "tasks_retrieve b (polls w + N) tid = Inr t"
      and "status t \<in> set [''SUCCEEDED'', ''FAILED'']"
      and "N < n"
  shows "poll n b tid w = (Some (Inr t), w\<lparr>events := events w @ poll_calls (Suc N) tid\<rparr>)"
  using assms
proof (induction N arbitrary: n w)
  case 0
  from \<open>0 < n\<close> obtain m where n: "n = Suc m" by (cases n) simp_all
  from "0.prems"(2) have "tasks_retrieve b (polls w) tid = Inr t" by simp
  from poll_step_done [OF this "0.prems"(3), of m] show ?case
    unfolding n by (simp add: issue_def)
next
  case (Suc N)
  from \<open>Suc N < n\<close> obtain m where n: "n = Suc m" and m: "N < m" by (cases n) simp_all
  let ?w2 = "issue (TasksRetrieve tid) (issue (Sleep 10000) w)"
  have p2: "polls ?w2 = Suc (polls w)" by simp
  from Suc.prems(1) [rule_format, of 0] obtain t0 where
    t0: "tasks_retrieve b (polls w) tid = Inr t0" "\<not> (status t0 \<in> set [''SUCCEEDED'', ''FAILED''])"
    by auto
  have later: "\<forall>j<N. \<exists>t. tasks_retrieve b (polls ?w2 + j) tid = Inr t \<and>
                      \<not> (status t \<in> set [''SUCCEEDED'', ''FAILED''])"
  proof (intro allI impI)
    fix j assume "j < N"
    then have "Suc j < Suc N" by simp
    from Suc.prems(1) [rule_format, OF this]
    show "\<exists>t. tasks_retrieve b (polls ?w2 + j) tid = Inr t \<and>
                      \<not> (status t \<in> set [''SUCCEEDED'', ''FAILED''])"
      unfolding p2 by simp
  qed
  have last: "tasks_retrieve b (polls ?w2 + N) tid = Inr t"
    using Suc.prems(2) unfolding p2 by simp
  from Suc.IH [OF later last Suc.prems(3) m]
  have "poll m b tid ?w2 = (Some (Inr t), ?w2\<lparr>events := events ?w2 @ poll_calls (Suc N) tid\<rparr>)" .
  then have "poll m b tid ?w2 = (Some (Inr t), w\<lparr>events := events w @ poll_calls (Suc (Suc N)) tid\<rparr>)"
    unfolding issue_twice_then by simp
  with poll_step_continue [OF t0, of m] show ?case unfolding n by simp
qed

lemma poll_never_terminal:
  assumes "\<forall>k. \<exists>t. tasks_retrieve b k tid = Inr t \<and> \<not> (status t \<in> set [''SUCCEEDED'', ''FAILED''])"
  shows "poll n b tid w = (None, w\<lparr>events := events w @ poll_calls n tid\<rparr>)"
proof (induction n arbitrary: w)
  case 0
  show ?case by simp
next
  case (Suc n)
  let ?w2 = "issue (TasksRetrieve tid) (issue (Sleep 10000) w)"
  from assms obtain t where t: "tasks_retrieve b (polls w) tid = Inr t"
    "\<not> (status t \<in> set [''SUCCEEDED'', ''FAILED''])" by blast
  from Suc [of ?w2] have "poll n b tid ?w2 = (None, w\<lparr>events := events w @ poll_calls (Suc n) tid\<rparr>)"
    unfolding issue_twice_then by simp
  with poll_step_continue [OF t, of n] show ?case by simp
qed

lemma video_unfold:
  assumes "imageToVideo_create b ph = Inr tid"
      and "poll n b tid (issue (ImageToVideoCreate ph) w) = (Some (Inr t), w1)"
  shows "generateVideoFromRunwayML n b sp ph name w =
           (if status t = ''SUCCEEDED''
            then if falsy (first_output t)
                 then (Some (Inl (Error ''Task output is undefined or empty.'')), w1)
                 else (case fetchVideoAsBuffer b (the (first_output t)) w1 of
                         (None, w2) \<Rightarrow> (None, w2)
                       | (Some (Inl err), w2) \<Rightarrow> (Some (Inl err), w2)
                       | (Some (Inr videoBuffer), w2) \<Rightarrow>
                           (case uploadToGCPStorage b name ''video/mp4'' (Buffer videoBuffer) Temp w2 of
                              (r, w3) \<Rightarrow> (Some r, w3)))
            else (Some (Inl (Error ''Video generation failed.'')), w1))"
  using assms by (simp add: generateVideoFromRunwayML_def Let_def)

lemma video_pending:
  assumes "imageToVideo_create b ph = Inr tid"
      and "poll n b tid (issue (ImageToVideoCreate ph) w) = (None, w1)"
  shows "generateVideoFromRunwayML n b sp ph name w = (None, w1)"
  using assms by (simp add: generateVideoFromRunwayML_def Let_def)

lemma video_poll_throws:
  assumes "imageToVideo_create b ph = Inr tid"
      and "poll n b tid (issue (ImageToVideoCreate ph) w) = (Some (Inl err), w1)"
  shows "generateVideoFromRunwayML n b sp ph name w = (Some (Inl err), w1)"
  using assms by (simp add: generateVideoFromRunwayML_def Let_def)

lemma video_create_throws:
  assumes "imageToVideo_create b ph = Inl err"
  shows "generateVideoFromRunwayML n b sp ph name w = (Some (Inl err), issue (ImageToVideoCreate ph) w)"
  using assms by (simp add: generateVideoFromRunwayML_def Let_def)

lemma video_tail:
  assumes "imageToVideo_create b ph = Inr tid"
      and "poll n b tid (issue (ImageToVideoCreate ph) w) = (pr, w1)"
      and "generateVideoFromRunwayML n b sp ph name w = (r, w')"
  shows "\<exists>rest. events w' = events w1 @ rest \<and> (\<forall>ev\<in>set rest. is_https_get ev \<or> is_store ev) \<and>
           (pr = None \<longrightarrow> r = None \<and> rest = []) \<and> (r \<noteq> None \<longrightarrow> pr \<noteq> None) \<and>
           (r = None \<longrightarrow> pr = None \<and> rest = [] \<or>
              (\<exists>u. rest = [HttpsGet u] \<and> (\<exists>e. https_get b u = RequestError e))) \<and>
           (\<forall>p. bucket w1 p \<noteq> None \<longrightarrow> bucket w' p \<noteq> None)"
proof (cases pr)
  case None
  with video_pending [OF assms(1)] assms(2,3) show ?thesis by simp
next
  case (Some a)
  show ?thesis
  proof (cases a)
    case (Inl err)
    with Some video_poll_throws [OF assms(1)] assms(2,3) show ?thesis by auto
  next
    case (Inr t)
    note unf = video_unfold [OF assms(1) assms(2) [unfolded Some Inr], of sp name]
    show ?thesis
    proof (cases "status t = ''SUCCEEDED'' \<and> \<not> falsy (first_output t)")
      case False
      with unf assms(3) Some have "w' = w1 \<and> r \<noteq> None" by (auto split: if_splits)
      with Some show ?thesis by simp
    next
      case True
      let ?u = "the (first_output t)"
      let ?w2 = "issue (HttpsGet ?u) w1"
      obtain fr where fr: "fetchVideoAsBuffer b ?u w1 = (fr, ?w2)"
        using fetch_video_world [of b ?u w1] by (metis prod.collapse)
      show ?thesis
      proof (cases fr)
        case None
        with fr have "\<exists>e. https_get b ?u = RequestError e"
          by (auto simp: fetchVideoAsBuffer_def Let_def split: https_outcome.splits if_splits option.splits)
        moreover from None unf True fr assms(3) have "w' = ?w2 \<and> r = None" by auto
        then have "events w' = events w1 @ [HttpsGet ?u] \<and> r = None \<and> bucket w' = bucket w1" by simp
        ultimately show ?thesis using Some by auto
      next
        case fs: (Some fa)
        show ?thesis
        proof (cases fa)
          case (Inl err)
          with fs unf True fr assms(3) have "w' = ?w2 \<and> r \<noteq> None" by auto
          then have "events w' = events w1 @ [HttpsGet ?u] \<and> r \<noteq> None \<and> bucket w' = bucket w1" by simp
          with Some show ?thesis by auto
        next
          case (Inr buf)
          with fs unf True fr assms(3)
          have up: "uploadToGCPStorage b name ''video/mp4'' (Buffer buf) Temp ?w2 = (the r, w')" and r: "r \<noteq> None"
            by (auto split: prod.splits)
          from upload_frame [OF up] obtain new where
            "events w' = events ?w2 @ new" "\<forall>ev\<in>set new. is_store ev"
            "\<forall>p. bucket ?w2 p \<noteq> None \<longrightarrow> bucket w' p \<noteq> None" by blast
          then have "events w' = events w1 @ (HttpsGet ?u # new)"
            "\<forall>ev\<in>set (HttpsGet ?u # new). is_https_get ev \<or> is_store ev"
            "\<forall>p. bucket w1 p \<noteq> None \<longrightarrow> bucket w' p \<noteq> None" by auto
          with Some r show ?thesis
            by (intro exI [of _ "HttpsGet ?u # new"]) auto
        qed
      qed
    qed
  qed
qed

lemma video_trace:
  assumes "imageToVideo_create b ph = Inr tid"
      and "generateVideoFromRunwayML n b sp ph name w = (r, w')"
  shows "\<exists>k rest. k \<le> n \<and> events w' = events w @ ImageToVideoCreate ph # poll_calls k tid @ rest \<and>
           (\<forall>ev\<in>set rest. is_https_get ev \<or> is_store ev) \<and>
           (r \<noteq> None \<longrightarrow> 0 < k) \<and> (k = n \<or> 0 < k) \<and>
           (r = None \<longrightarrow> k = n \<and> rest = [] \<or>
              (\<exists>u. rest = [HttpsGet u] \<and> (\<exists>e. https_get b u = RequestError e))) \<and>
           (\<forall>p. bucket w p \<noteq> None \<longrightarrow> bucket w' p \<noteq> None)"
proof -
  let ?w0 = "issue (ImageToVideoCreate ph) w"
  obtain pr w1 where p: "poll n b tid ?w0 = (pr, w1)" by (cases "poll n b tid ?w0")
  from poll_trace [OF p] obtain k where k1: "k \<le> n"
    and k2: "w1 = ?w0\<lparr>events := events ?w0 @ poll_calls k tid\<rparr>"
    and k3: "pr \<noteq> None \<longrightarrow> 0 < k" and k4: "pr = None \<longrightarrow> k = n"
    by (elim exE conjE)
  from video_tail [OF assms(1) p assms(2)] obtain rest where r1: "events w' = events w1 @ rest"
    and r2: "\<forall>ev\<in>set rest. is_https_get ev \<or> is_store ev"
    and r3: "pr = None \<longrightarrow> r = None \<and> rest = []" and r4: "r \<noteq> None \<longrightarrow> pr \<noteq> None"
    and r6: "r = None \<longrightarrow> pr = None \<and> rest = [] \<or>
              (\<exists>u. rest = [HttpsGet u] \<and> (\<exists>e. https_get b u = RequestError e))"
    and r5: "\<forall>p. bucket w1 p \<noteq> None \<longrightarrow> bucket w' p \<noteq> None"
    by (elim exE conjE)
  from k2 have e1: "events w1 = events w @ ImageToVideoCreate ph # poll_calls k tid"
    and b1: "bucket w1 = bucket w"
    by simp_all
  have 1: "events w' = events w @ ImageToVideoCreate ph # poll_calls k tid @ rest"
    using r1 e1 by simp
  have 2: "r \<noteq> None \<longrightarrow> 0 < k" using r3 k3 by (cases pr) simp_all
  have 5: "k = n \<or> 0 < k" using k3 k4 by (cases pr) simp_all
  have 3: "r = None \<longrightarrow> k = n \<and> rest = [] \<or>
              (\<exists>u. rest = [HttpsGet u] \<and> (\<exists>e. https_get b u = RequestError e))"
    using r6 k4 by auto
  have 4: "\<forall>p. bucket w p \<noteq> None \<longrightarrow> bucket w' p \<noteq> None" using r5 b1 by simp
  show ?thesis
    apply (rule exI [of _ k])
    apply (rule exI [of _ rest])
    using k1 1 r2 2 5 3 4 apply (intro conjI)
         apply assumption+
    done
qed

text \<open>
  What the loop returns is an answer of the backend: an error it has thrown, or a task
  whose status is terminal.
\<close>

lemma poll_returns:
  "poll n b tid w = (Some a, w1) \<Longrightarrow>
     \<exists>k. (case a of
            Inl e \<Rightarrow> tasks_retrieve b k tid = Inl e
          | Inr t \<Rightarrow> tasks_retrieve b k tid = Inr t \<and> status t \<in> set [''SUCCEEDED'', ''FAILED''])"
proof (induction n arbitrary: w)
  case 0
  then show ?case by simp
next
  case (Suc n)
  show ?case
  proof (cases "tasks_retrieve b (polls w) tid")
    case (Inl e)
    with Suc.prems have "a = Inl e" by (simp add: Let_def)
    with Inl show ?thesis by auto
  next
    case (Inr t)
    show ?thesis
    proof (cases "status t \<in> set [''SUCCEEDED'', ''FAILED'']")
      case True
      with Inr Suc.prems have "a = Inr t" by (auto simp: Let_def)
      with Inr True show ?thesis by auto
    next
      case False
      with Inr Suc.prems
      have "poll n b tid (issue (TasksRetrieve tid) (issue (Sleep 10000) w)) = (Some a, w1)"
        by (simp add: Let_def)
      from Suc.IH [OF this] show ?thesis .
    qed
  qed
qed

lemma video_request_error:
  assumes "imageToVideo_create b ph = Inr tid"
      and "\<forall>k. \<exists>t. tasks_retrieve b k tid = Inr t \<and>
             (status t \<in> set [''SUCCEEDED'', ''FAILED''] \<longrightarrow>
                status t = ''SUCCEEDED'' \<and> \<not> falsy (first_output t) \<and>
                (\<exists>e. https_get b (the (first_output t)) = RequestError e))"
  shows "fst (generateVideoFromRunwayML n b sp ph name w) = None"
proof -
  let ?w0 = "issue (ImageToVideoCreate ph) w"
  obtain pr w1 where p: "poll n b tid ?w0 = (pr, w1)" by (cases "poll n b tid ?w0")
  show ?thesis
  proof (cases pr)
    case None
    with video_pending [OF assms(1), of n w w1 sp name] p show ?thesis by simp
  next
    case (Some a)
    from poll_returns [OF p [unfolded Some]] obtain k where
      k: "case a of Inl e \<Rightarrow> tasks_retrieve b k tid = Inl e
          | Inr t \<Rightarrow> tasks_retrieve b k tid = Inr t \<and> status t \<in> set [''SUCCEEDED'', ''FAILED'']"
      by (elim exE)
    from assms(2) [rule_format, of k] obtain t where
      t: "tasks_retrieve b k tid = Inr t"
      and tt: "status t \<in> set [''SUCCEEDED'', ''FAILED''] \<longrightarrow>
                status t = ''SUCCEEDED'' \<and> \<not> falsy (first_output t) \<and>
                (\<exists>e. https_get b (the (first_output t)) = RequestError e)"
      by (elim exE conjE)
    from k t have a: "a = Inr t" and tm: "status t \<in> set [''SUCCEEDED'', ''FAILED'']"
      by (cases a; simp)+
    from tt tm obtain e where s: "status t = ''SUCCEEDED''" and nf: "\<not> falsy (first_output t)"
      and g: "https_get b (the (first_output t)) = RequestError e" by auto
    have f: "fetchVideoAsBuffer b (the (first_output t)) w1 =
               (None, issue (HttpsGet (the (first_output t))) w1)"
      using g by (simp add: fetchVideoAsBuffer_def Let_def)
    show ?thesis
      unfolding video_unfold [OF assms(1) p [unfolded Some a]] using s nf f by simp
  qed
qed

subsection \<open>The calls of the video stage\<close>

lemma class_not_poll:
  "is_https_get ev \<or> is_store ev \<Longrightarrow> \<not> is_retrieve ev \<and> \<not> is_sleep ev"
  by (cases ev) simp_all

lemma video_fetches:
  assumes "imageToVideo_create b ph = Inr tid"
      and "poll n b tid (issue (ImageToVideoCreate ph) w) = (Some (Inr t), w1)"
      and "status t = ''SUCCEEDED''" and "\<not> falsy (first_output t)"
      and "generateVideoFromRunwayML n b sp ph name w = (r, w')"
  shows "\<exists>new. events w' = events w1 @ HttpsGet (the (first_output t)) # new \<and>
           (\<forall>ev\<in>set new. is_store ev) \<and>
           (r = None \<longleftrightarrow> (\<exists>e. https_get b (the (first_output t)) = RequestError e)) \<and>
           (new \<noteq> [] \<longrightarrow>
              (\<exists>resp. https_get b (the (first_output t)) = Response resp \<and> statusCode resp = 200))"
proof -
  let ?u = "the (first_output t)"
  let ?w2 = "issue (HttpsGet ?u) w1"
  note unf = video_unfold [OF assms(1,2), of sp name]
  obtain fr where fr: "fetchVideoAsBuffer b ?u w1 = (fr, ?w2)"
    using fetch_video_world [of b ?u w1] by (metis prod.collapse)
  from fr have settles: "fr = None \<longleftrightarrow> (\<exists>e. https_get b ?u = RequestError e)"
    by (auto simp: fetchVideoAsBuffer_def Let_def split: https_outcome.splits if_splits option.splits)
  show ?thesis
  proof (cases fr)
    case None
    with unf assms(3,4,5) fr have "w' = ?w2" "r = None" by auto
    then have "events w' = events w1 @ HttpsGet ?u # []" by simp
    with \<open>r = None\<close> settles None show ?thesis by fastforce
  next
    case (Some fa)
    show ?thesis
    proof (cases fa)
      case (Inl err)
      with Some unf assms(3,4,5) fr have "w' = ?w2" "r \<noteq> None" by auto
      then have "events w' = events w1 @ HttpsGet ?u # []" by simp
      with \<open>r \<noteq> None\<close> settles Some show ?thesis by fastforce
    next
      case (Inr buf)
      with Some fr have "\<exists>resp. https_get b ?u = Response resp \<and> statusCode resp = 200"
        by (auto simp: fetchVideoAsBuffer_def Let_def split: https_outcome.splits if_splits option.splits)
      moreover
      from Inr Some unf assms(3,4,5) fr
      have up: "uploadToGCPStorage b name ''video/mp4'' (Buffer buf) Temp ?w2 = (the r, w')" and r: "r \<noteq> None"
        by (auto split: prod.splits)
      from upload_frame [OF up] obtain new where
        "events w' = events ?w2 @ new" "\<forall>ev\<in>set new. is_store ev" by (elim exE conjE)
      then have "events w' = events w1 @ HttpsGet ?u # new" by simp
      ultimately show ?thesis using r settles Some \<open>\<forall>ev\<in>set new. is_store ev\<close> by auto
    qed
  qed
qed

lemma done_run:
  "generateVideoFromRunwayML 1 done_backends ''cricket'' ''data:image/jpeg;base64,AAAA'' ''video-7.mp4'' idle =
     (Some (Inr ''https://storage.googleapis.com/sehban/temp/video-7.mp4''),
      \<lparr>events = [ImageToVideoCreate ''data:image/jpeg;base64,AAAA'', Sleep 10000, TasksRetrieve ''42'',
                 HttpsGet ''https://cdn/example.mp4'',
                 Save ''temp/video-7.mp4'' ''video/mp4'' (Buffer ''ftypmdat''),
                 MakePublic ''temp/video-7.mp4''],
       bucket = [''temp/video-7.mp4'' \<mapsto>
                  \<lparr>contentType = ''video/mp4'', payload = Buffer ''ftypmdat'', isPublic = True\<rparr>]\<rparr>)"
proof -
  let ?w0 = "issue (ImageToVideoCreate ''data:image/jpeg;base64,AAAA'') idle"
  have c: "imageToVideo_create done_backends ''data:image/jpeg;base64,AAAA'' = Inr ''42''"
    by (simp add: done_backends_def)
  have p: "poll 1 done_backends ''42'' ?w0 =
             (Some (Inr \<lparr>status = ''SUCCEEDED'', task_output = Some [''https://cdn/example.mp4'']\<rparr>),
              issue (TasksRetrieve ''42'') (issue (Sleep 10000) ?w0))"
    unfolding One_nat_def by (rule poll_step_done) (simp_all add: done_backends_def)
  show ?thesis
    unfolding video_unfold [OF c p]
    by (simp add: first_output_def falsy_def fetchVideoAsBuffer_def Let_def done_backends_def
        upload_accepted issue_def idle_def paths)
qed

lemma polls_idle [simp]: "polls idle = 0"
  by (simp add: polls_def idle_def)

lemma video_never_terminal:
  assumes "imageToVideo_create b ph = Inr tid"
      and "\<forall>k. \<exists>t. tasks_retrieve b k tid = Inr t \<and> \<not> (status t \<in> set [''SUCCEEDED'', ''FAILED''])"
  shows "generateVideoFromRunwayML n b sp ph name w =
           (None, w\<lparr>events := events w @ ImageToVideoCreate ph # poll_calls n tid\<rparr>)"
proof -
  have "poll n b tid (issue (ImageToVideoCreate ph) w) =
          (None, w\<lparr>events := events w @ ImageToVideoCreate ph # poll_calls n tid\<rparr>)"
    unfolding poll_never_terminal [OF assms(2)] by (simp add: issue_def)
  from video_pending [OF assms(1) this] show ?thesis .
qed

lemma video_poll_counts:
  assumes create: "imageToVideo_create b ph = Inr tid"
      and running: "\<forall>j<N. \<exists>t. tasks_retrieve b (polls w + j) tid = Inr t \<and> status t = ''RUNNING''"
      and last: "tasks_retrieve b (polls w + N) tid = Inr t"
      and terminal: "status t = ''SUCCEEDED'' \<or> status t = ''FAILED''"
      and fuel: "N < n"
      and run: "generateVideoFromRunwayML n b sp ph name w = (r, w')"
  shows "length (filter is_retrieve (issued w w')) = N + 1 \<and>
         length (filter is_https_get (issued w w')) =
           (if status t = ''SUCCEEDED'' \<and> \<not> falsy (first_output t) then 1 else 0) \<and>
         (status t = ''FAILED'' \<longrightarrow> r = Some (Inl (Error ''Video generation failed.'')))"
proof -
  let ?w0 = "issue (ImageToVideoCreate ph) w"
  let ?w1 = "?w0\<lparr>events := events ?w0 @ poll_calls (Suc N) tid\<rparr>"
  have p0: "polls ?w0 = polls w" by simp
  from running have nonterm: "\<forall>j<N. \<exists>t. tasks_retrieve b (polls ?w0 + j) tid = Inr t \<and>
                      \<not> (status t \<in> set [''SUCCEEDED'', ''FAILED''])"
    unfolding p0 by fastforce
  from last have last0: "tasks_retrieve b (polls ?w0 + N) tid = Inr t" unfolding p0 .
  from terminal have tm: "status t \<in> set [''SUCCEEDED'', ''FAILED'']" by auto
  note p = poll_finds_terminal [OF nonterm last0 tm fuel]
  have e1: "events ?w1 = events w @ ImageToVideoCreate ph # poll_calls (Suc N) tid" by simp
  show ?thesis
  proof (cases "status t = ''SUCCEEDED'' \<and> \<not> falsy (first_output t)")
    case True
    from video_fetches [OF create p _ _ run] True obtain new where
      ev: "events w' = events ?w1 @ HttpsGet (the (first_output t)) # new"
      and st: "\<forall>ev\<in>set new. is_store ev"
      by blast
    from st have f1: "filter is_retrieve new = []" and f2: "filter is_https_get new = []"
      by (auto simp: filter_empty_conv dest: store_not_other)
    from ev e1 have "issued w w' = ImageToVideoCreate ph # poll_calls (Suc N) tid @
                        HttpsGet (the (first_output t)) # new"
      by (simp add: issued_def)
    with f1 f2 True show ?thesis by simp
  next
    case False
    from video_unfold [OF create p, of sp name] run False
    have w': "w' = ?w1"
      and f: "status t = ''FAILED'' \<longrightarrow> r = Some (Inl (Error ''Video generation failed.''))"
      by (auto split: if_splits)
    from w' e1 have "issued w w' = ImageToVideoCreate ph # poll_calls (Suc N) tid"
      by (simp add: issued_def)
    with f False show ?thesis by simp
  qed
qed

lemma fetch_video_result:
  assumes "https_get b u = Response resp"
  shows "fst (fetchVideoAsBuffer b u w) =
           (if statusCode resp \<noteq> 200
            then Some (Inl (Error (''Failed to fetch video. Status code: '' @ string_of_nat (statusCode resp))))
            else case stream_error resp of
                   Some err \<Rightarrow> Some (Inl err)
                 | None \<Rightarrow> Some (Inr (concat (chunks resp))))"
  using assms by (simp add: fetchVideoAsBuffer_def Let_def split: option.splits)

subsection \<open>Stored objects are kept\<close>

lemma kept_refl: "kept b w w"
  by (simp add: kept_def)

lemma kept_trans:
  assumes "kept b w w1" and "kept b w1 w2"
  shows "kept b w w2"
proof -
  from assms(1) obtain n1 where n1: "events w1 = events w @ n1"
    and s1: "\<forall>p ft c. Save p ft c \<in> set n1 \<longrightarrow> file_save b p ft c = None \<longrightarrow> bucket w1 p \<noteq> None"
    and m1: "\<forall>p. bucket w p \<noteq> None \<longrightarrow> bucket w1 p \<noteq> None"
    unfolding kept_def by (elim exE conjE)
  from assms(2) obtain n2 where n2: "events w2 = events w1 @ n2"
    and s2: "\<forall>p ft c. Save p ft c \<in> set n2 \<longrightarrow> file_save b p ft c = None \<longrightarrow> bucket w2 p \<noteq> None"
    and m2: "\<forall>p. bucket w1 p \<noteq> None \<longrightarrow> bucket w2 p \<noteq> None"
    unfolding kept_def by (elim exE conjE)
  have e: "events w2 = events w @ (n1 @ n2)" using n1 n2 by simp
  have s: "\<forall>p ft c. Save p ft c \<in> set (n1 @ n2) \<longrightarrow> file_save b p ft c = None \<longrightarrow> bucket w2 p \<noteq> None"
    using s1 s2 m2 by auto
  have m: "\<forall>p. bucket w p \<noteq> None \<longrightarrow> bucket w2 p \<noteq> None" using m1 m2 by simp
  show ?thesis unfolding kept_def using e s m by blast
qed

lemma kept_issue: "\<not> is_store ev \<Longrightarrow> kept b w (issue ev w)"
  unfolding kept_def by (cases ev) auto

lemma kept_poll_calls: "kept b w (w\<lparr>events := events w @ poll_calls k tid\<rparr>)"
proof -
  have "Save p ft c \<notin> set (poll_calls k tid)" for p ft c
    by (induction k) simp_all
  then show ?thesis unfolding kept_def by simp
qed

lemma upload_kept:
  assumes "uploadToGCPStorage b fn ft c g w = (r, w')"
  shows "kept b w w'"
proof (cases "file_save b (filePath g fn) ft c")
  case (Some err)
  with assms have "w' = issue (Save (filePath g fn) ft c) w"
    by (simp add: uploadToGCPStorage_def bucketName_def Let_def)
  with Some show ?thesis unfolding kept_def by auto
next
  case None
  with assms have "events w' = events w @ [Save (filePath g fn) ft c, MakePublic (filePath g fn)]"
    "bucket w' (filePath g fn) \<noteq> None" "\<forall>p. bucket w p \<noteq> None \<longrightarrow> bucket w' p \<noteq> None"
    by (auto simp: uploadToGCPStorage_def bucketName_def Let_def issue_def split: option.splits)
  then show ?thesis unfolding kept_def by auto
qed

lemma script_kept:
  assumes "generateVideoScriptUsingGemini b sp name w = (r, w')"
  shows "kept b w w'"
proof -
  let ?w1 = "issue (GenerateContent (prompt sp)) w"
  from assms have "w' = ?w1 \<or> (\<exists>s. uploadToGCPStorage b name ''text/plain'' (Text s) Temp ?w1 = (r, w'))"
    by (auto simp: generateVideoScriptUsingGemini_def Let_def split: sum.splits if_splits)
  then show ?thesis
    using kept_issue [of "GenerateContent (prompt sp)" b w] upload_kept kept_trans by auto
qed

lemma voice_kept:
  assumes "generateVoiceoverUsingGoogleTTS b url name w = (r, w')"
  shows "kept b w w'"
proof -
  have 1: "kept b w (issue (Fetch url) w)" by (simp add: kept_issue)
  have 2: "kept b w (issue (SynthesizeSpeech t) (issue (Fetch url) w))" for t
    by (rule kept_trans [OF 1]) (simp add: kept_issue)
  from voice_cases [OF assms] show ?thesis
    using 1 2 upload_kept kept_trans by blast
qed

lemma video_kept:
  assumes "generateVideoFromRunwayML n b sp ph name w = (r, w')"
  shows "kept b w w'"
proof (cases "imageToVideo_create b ph")
  case (Inl err)
  from video_create_throws [OF this, of n sp name w] assms show ?thesis
    by (simp add: kept_issue)
next
  case (Inr tid)
  let ?w0 = "issue (ImageToVideoCreate ph) w"
  have k0: "kept b w ?w0" by (simp add: kept_issue)
  obtain pr w1 where p: "poll n b tid ?w0 = (pr, w1)" by (cases "poll n b tid ?w0")
  from poll_trace [OF p] obtain k where "w1 = ?w0\<lparr>events := events ?w0 @ poll_calls k tid\<rparr>"
    by (elim exE conjE)
  then have k1: "kept b w w1" using kept_trans [OF k0 kept_poll_calls] by simp
  have "kept b w1 w'"
  proof (cases pr)
    case None
    with video_pending [OF Inr] p assms show ?thesis by (simp add: kept_refl)
  next
    case (Some a)
    show ?thesis
    proof (cases a)
      case (Inl err)
      with Some video_poll_throws [OF Inr] p assms show ?thesis by (simp add: kept_refl)
    next
      case t: (Inr t)
      note unf = video_unfold [OF Inr p [unfolded Some t], of sp name]
      show ?thesis
      proof (cases "status t = ''SUCCEEDED'' \<and> \<not> falsy (first_output t)")
        case False
        with unf assms have "w' = w1" by (auto split: if_splits)
        then show ?thesis by (simp add: kept_refl)
      next
        case True
        let ?u = "the (first_output t)"
        let ?w2 = "issue (HttpsGet ?u) w1"
        have k2: "kept b w1 ?w2" by (simp add: kept_issue)
        obtain fr where fr: "fetchVideoAsBuffer b ?u w1 = (fr, ?w2)"
          using fetch_video_world [of b ?u w1] by (metis prod.collapse)
        show ?thesis
        proof (cases fr)
          case None
          with unf True fr assms have "w' = ?w2" by auto
          with k2 show ?thesis by simp
        next
          case fs: (Some fa)
          show ?thesis
          proof (cases fa)
            case (Inl err)
            with fs unf True fr assms have "w' = ?w2" by auto
            with k2 show ?thesis by simp
          next
            case (Inr buf)
            with fs unf True fr assms
            have "uploadToGCPStorage b name ''video/mp4'' (Buffer buf) Temp ?w2 = (the r, w')"
              by (auto split: prod.splits)
            from kept_trans [OF k2 upload_kept [OF this]] show ?thesis .
          qed
        qed
      qed
    qed
  qed
  with k1 show ?thesis by (rule kept_trans)
qed

lemma video_frame:
  assumes "generateVideoFromRunwayML n b sp ph name w = (r, w')"
  shows "\<exists>new. events w' = events w @ new \<and> (\<forall>ev\<in>set new. \<not> is_fetch ev)"
proof (cases "imageToVideo_create b ph")
  case (Inl err)
  from video_create_throws [OF this, of n sp name w] assms
  have "events w' = events w @ [ImageToVideoCreate ph]" by auto
  then show ?thesis by simp
next
  case (Inr tid)
  from video_trace [OF Inr assms] obtain k rest where
    ev: "events w' = events w @ ImageToVideoCreate ph # poll_calls k tid @ rest"
    and cl: "\<forall>ev\<in>set rest. is_https_get ev \<or> is_store ev"
    by (elim exE conjE)
  have 1: "\<not> is_fetch e" if "e \<in> set (poll_calls k tid)" for e
    using that by (induction k) auto
  have 2: "\<not> is_fetch e" if "e \<in> set rest" for e
    using cl that by (cases e) auto
  from 1 2 have "\<forall>ev\<in>set (ImageToVideoCreate ph # poll_calls k tid @ rest). \<not> is_fetch ev"
    by auto
  with ev show ?thesis by blast
qed

lemma video_returns:
  assumes "generateVideoFromRunwayML n b sp ph name w = (Some (Inr u), w')"
  shows "u = publicUrl Temp name"
proof (cases "imageToVideo_create b ph")
  case (Inl err)
  from video_create_throws [OF this, of n sp name w] assms show ?thesis by simp
next
  case (Inr tid)
  let ?w0 = "issue (ImageToVideoCreate ph) w"
  obtain pr w1 where p: "poll n b tid ?w0 = (pr, w1)" by (cases "poll n b tid ?w0")
  show ?thesis
  proof (cases pr)
    case None
    with video_pending [OF Inr] p assms show ?thesis by simp
  next
    case (Some a)
    show ?thesis
    proof (cases a)
      case (Inl err)
      with Some video_poll_throws [OF Inr] p assms show ?thesis by simp
    next
      case t: (Inr t)
      note unf = video_unfold [OF Inr p [unfolded Some t], of sp name]
      from unf assms have "\<exists>buf w2. uploadToGCPStorage b name ''video/mp4'' (Buffer buf) Temp w2 = (Inr u, w')"
        by (auto split: if_splits prod.splits sum.splits option.splits)
      then show ?thesis using upload_returns by blast
    qed
  qed
qed

subsection \<open>Runs in which the backends succeed\<close>

lemma script_accepted:
  assumes "models_generateContent b (prompt sp) = Inr (Some s)" and "s \<noteq> []"
      and "file_save b (filePath Temp name) ''text/plain'' (Text s) = None"
      and "file_makePublic b (filePath Temp name) = None"
  shows "generateVideoScriptUsingGemini b sp name w =
           (Inr (publicUrl Temp name),
            \<lparr>events = events w @ [GenerateContent (prompt sp),
                                   Save (filePath Temp name) ''text/plain'' (Text s),
                                   MakePublic (filePath Temp name)],
             bucket = (bucket w)(filePath Temp name \<mapsto>
                        \<lparr>contentType = ''text/plain'', payload = Text s, isPublic = True\<rparr>)\<rparr>)"
proof -
  have "generateVideoScriptUsingGemini b sp name w =
          uploadToGCPStorage b name ''text/plain'' (Text s) Temp (issue (GenerateContent (prompt sp)) w)"
    using assms(1,2) by (simp add: generateVideoScriptUsingGemini_def Let_def falsy_def)
  also note upload_accepted [OF assms(3,4)]
  finally show ?thesis by simp
qed

lemma voice_accepted:
  assumes "node_fetch b url = Inr resp" and "ok resp" and "body_text resp \<noteq> []"
      and "synthesizeSpeech b (body_text resp) = Inr (Some audio)" and "audio \<noteq> Text []"
      and "file_save b (filePath Temp name) ''audio/mpeg'' audio = None"
      and "file_makePublic b (filePath Temp name) = None"
  shows "generateVoiceoverUsingGoogleTTS b url name w =
           (Inr (publicUrl Temp name),
            \<lparr>events = events w @ [Fetch url, SynthesizeSpeech (body_text resp),
                                   Save (filePath Temp name) ''audio/mpeg'' audio,
                                   MakePublic (filePath Temp name)],
             bucket = (bucket w)(filePath Temp name \<mapsto>
                        \<lparr>contentType = ''audio/mpeg'', payload = audio, isPublic = True\<rparr>)\<rparr>)"
proof -
  have "generateVoiceoverUsingGoogleTTS b url name w =
          uploadToGCPStorage b name ''audio/mpeg'' audio Temp
            (issue (SynthesizeSpeech (body_text resp)) (issue (Fetch url) w))"
    using assms(1-5) by (simp add: generateVoiceoverUsingGoogleTTS_def Let_def falsy_content_def)
  also note upload_accepted [OF assms(6,7)]
  finally show ?thesis by simp
qed

lemma video_accepted:
  assumes "imageToVideo_create b ph = Inr tid"
      and "\<forall>j<N. \<exists>t. tasks_retrieve b (polls w + j) tid = Inr t \<and> status t = ''RUNNING''"
      and "tasks_retrieve b (polls w + N) tid = Inr t" and "status t = ''SUCCEEDED''"
      and "first_output t = Some u" and "u \<noteq> []" and "N < n"
      and "https_get b u = Response hr" and "statusCode hr = 200" and "stream_error hr = None"
      and "file_save b (filePath Temp name) ''video/mp4'' (Buffer (concat (chunks hr))) = None"
      and "file_makePublic b (filePath Temp name) = None"
  shows "generateVideoFromRunwayML n b sp ph name w =
           (Some (Inr (publicUrl Temp name)),
            \<lparr>events = events w @ ImageToVideoCreate ph # poll_calls (Suc N) tid @
                        [HttpsGet u,
                         Save (filePath Temp name) ''video/mp4'' (Buffer (concat (chunks hr))),
                         MakePublic (filePath Temp name)],
             bucket = (bucket w)(filePath Temp name \<mapsto>
                        \<lparr>contentType = ''video/mp4'', payload = Buffer (concat (chunks hr)),
                         isPublic = True\<rparr>)\<rparr>)"
proof -
  let ?w0 = "issue (ImageToVideoCreate ph) w"
  let ?w1 = "?w0\<lparr>events := events ?w0 @ poll_calls (Suc N) tid\<rparr>"
  have p0: "polls ?w0 = polls w" by simp
  from assms(2) have nonterm: "\<forall>j<N. \<exists>t. tasks_retrieve b (polls ?w0 + j) tid = Inr t \<and>
                      \<not> (status t \<in> set [''SUCCEEDED'', ''FAILED''])"
    unfolding p0 by fastforce
  from assms(3) have last0: "tasks_retrieve b (polls ?w0 + N) tid = Inr t" unfolding p0 .
  from assms(4) have tm: "status t \<in> set [''SUCCEEDED'', ''FAILED'']" by simp
  note p = poll_finds_terminal [OF nonterm last0 tm assms(7)]
  have f: "fetchVideoAsBuffer b u ?w1 = (Some (Inr (concat (chunks hr))), issue (HttpsGet u) ?w1)"
    using assms(8-10) by (simp add: fetchVideoAsBuffer_def Let_def)
  have "generateVideoFromRunwayML n b sp ph name w =
          (case uploadToGCPStorage b name ''video/mp4'' (Buffer (concat (chunks hr))) Temp
                  (issue (HttpsGet u) ?w1) of (r, w3) \<Rightarrow> (Some r, w3))"
    unfolding video_unfold [OF assms(1) p] using assms(4-6) f by (simp add: falsy_def)
  also note upload_accepted [OF assms(11,12)]
  finally show ?thesis by (simp add: issue_def)
qed

lemma POST_valid:
  assumes "request_json b = Inr bd" and "\<not> falsy (sports bd)" and "\<not> falsy (photo bd)"
  shows "POST n b w =
           (case generateVideoScriptUsingGemini b (the (sports bd)) (tempScriptName b) w of
               (Inl err, w1) \<Rightarrow> (Some (Envelope 500 NoData (Some (stringify err))), w1)
             | (Inr sURL, w1) \<Rightarrow>
                 (case generateVoiceoverUsingGoogleTTS b sURL (tempAudioName b) w1 of
                    (Inl err, w2) \<Rightarrow> (Some (Envelope 500 NoData (Some (stringify err))), w2)
                  | (Inr vURL, w2) \<Rightarrow>
                      (case generateVideoFromRunwayML n b (the (sports bd)) (the (photo bd))
                              (tempVideoName b) w2 of
                         (None, w3) \<Rightarrow> (None, w3)
                       | (Some (Inl err), w3) \<Rightarrow> (Some (Envelope 500 NoData (Some (stringify err))), w3)
                       | (Some (Inr vidURL), w3) \<Rightarrow>
                           (Some (Envelope 200 (Success sURL vURL vidURL) None), w3))))"
  using assms by (simp add: POST_def)

lemma polls_world [simp]: "polls \<lparr>events = es, bucket = bk\<rparr> = length (filter is_retrieve es)"
  by (simp add: polls_def)

lemma POST_succeeds:
  assumes "request_json b = Inr \<lparr>sports = Some sp, photo = Some ph\<rparr>" and "sp \<noteq> []" and "ph \<noteq> []"
      and "models_generateContent b (prompt sp) = Inr (Some s)" and "s \<noteq> []"
      and "\<forall>p ft c. file_save b p ft c = None" and "\<forall>p. file_makePublic b p = None"
      and "node_fetch b (publicUrl Temp (tempScriptName b)) = Inr resp"
      and "ok resp" and "body_text resp \<noteq> []"
      and "synthesizeSpeech b (body_text resp) = Inr (Some audio)" and "audio \<noteq> Text []"
      and "imageToVideo_create b ph = Inr tid"
      and "\<forall>j<N. \<exists>t. tasks_retrieve b (polls w + j) tid = Inr t \<and> status t = ''RUNNING''"
      and "tasks_retrieve b (polls w + N) tid = Inr t" and "status t = ''SUCCEEDED''"
      and "first_output t = Some u" and "u \<noteq> []" and "N < n"
      and "https_get b u = Response hr" and "statusCode hr = 200" and "stream_error hr = None"
  shows "POST n b w =
           (Some (Envelope 200 (Success (publicUrl Temp (tempScriptName b))
                                         (publicUrl Temp (tempAudioName b))
                                         (publicUrl Temp (tempVideoName b))) None),
            \<lparr>events = events w @
                [GenerateContent (prompt sp),
                 Save (filePath Temp (tempScriptName b)) ''text/plain'' (Text s),
                 MakePublic (filePath Temp (tempScriptName b)),
                 Fetch (publicUrl Temp (tempScriptName b)),
                 SynthesizeSpeech (body_text resp),
                 Save (filePath Temp (tempAudioName b)) ''audio/mpeg'' audio,
                 MakePublic (filePath Temp (tempAudioName b)),
                 ImageToVideoCreate ph] @ poll_calls (Suc N) tid @
                [HttpsGet u,
                 Save (filePath Temp (tempVideoName b)) ''video/mp4'' (Buffer (concat (chunks hr))),
                 MakePublic (filePath Temp (tempVideoName b))],
             bucket = (bucket w)
                (filePath Temp (tempScriptName b) \<mapsto>
                   \<lparr>contentType = ''text/plain'', payload = Text s, isPublic = True\<rparr>,
                 filePath Temp (tempAudioName b) \<mapsto>
                   \<lparr>contentType = ''audio/mpeg'', payload = audio, isPublic = True\<rparr>,
                 filePath Temp (tempVideoName b) \<mapsto>
                   \<lparr>contentType = ''video/mp4'', payload = Buffer (concat (chunks hr)),
                    isPublic = True\<rparr>)\<rparr>)"
proof -
  let ?bd = "\<lparr>sports = Some sp, photo = Some ph\<rparr>"
  have v: "\<not> falsy (sports ?bd)" "\<not> falsy (photo ?bd)" using assms(2,3) by (simp_all add: falsy_def)
  have sv: "file_save b p ft c = None" for p ft c using assms(6) by simp
  have mp: "file_makePublic b p = None" for p using assms(7) by simp
  define w1 where "w1 =
     \<lparr>events = events w @ [GenerateContent (prompt sp),
                   Save (filePath Temp (tempScriptName b)) ''text/plain'' (Text s),
                   MakePublic (filePath Temp (tempScriptName b))],
      bucket = (bucket w)(filePath Temp (tempScriptName b) \<mapsto>
                   \<lparr>contentType = ''text/plain'', payload = Text s, isPublic = True\<rparr>)\<rparr>"
  have e1: "generateVideoScriptUsingGemini b (the (sports ?bd)) (tempScriptName b) w =
              (Inr (publicUrl Temp (tempScriptName b)), w1)"
    using script_accepted [OF assms(4,5) sv mp, of "tempScriptName b" w] by (simp add: w1_def)
  define w2 where "w2 =
     \<lparr>events = events w1 @ [Fetch (publicUrl Temp (tempScriptName b)),
                   SynthesizeSpeech (body_text resp),
                   Save (filePath Temp (tempAudioName b)) ''audio/mpeg'' audio,
                   MakePublic (filePath Temp (tempAudioName b))],
      bucket = (bucket w1)(filePath Temp (tempAudioName b) \<mapsto>
                   \<lparr>contentType = ''audio/mpeg'', payload = audio, isPublic = True\<rparr>)\<rparr>"
  have e2: "generateVoiceoverUsingGoogleTTS b (publicUrl Temp (tempScriptName b)) (tempAudioName b) w1 =
              (Inr (publicUrl Temp (tempAudioName b)), w2)"
    unfolding w2_def by (rule voice_accepted [OF assms(8-12) sv mp])
  have pw: "polls w2 = polls w" by (simp add: w2_def w1_def polls_def)
  define w3 where "w3 =
     \<lparr>events = events w2 @ ImageToVideoCreate ph # poll_calls (Suc N) tid @
                   [HttpsGet u,
                    Save (filePath Temp (tempVideoName b)) ''video/mp4'' (Buffer (concat (chunks hr))),
                    MakePublic (filePath Temp (tempVideoName b))],
      bucket = (bucket w2)(filePath Temp (tempVideoName b) \<mapsto>
                   \<lparr>contentType = ''video/mp4'', payload = Buffer (concat (chunks hr)),
                    isPublic = True\<rparr>)\<rparr>"
  have e3: "generateVideoFromRunwayML n b (the (sports ?bd)) (the (photo ?bd)) (tempVideoName b) w2 =
              (Some (Inr (publicUrl Temp (tempVideoName b))), w3)"
    unfolding w3_def
    using video_accepted [OF _ assms(14) [folded pw] assms(15) [folded pw] assms(16-22) sv mp,
              of ph "the (sports ?bd)" "tempVideoName b"] assms(13)
    by simp
  have "POST n b w = (Some (Envelope 200 (Success (publicUrl Temp (tempScriptName b))
                                         (publicUrl Temp (tempAudioName b))
                                         (publicUrl Temp (tempVideoName b))) None), w3)"
    by (simp only: POST_valid [OF assms(1) v] e1 e2 e3 prod.case sum.case option.case)
  then show ?thesis by (simp add: w3_def w2_def w1_def)
qed

subsection \<open>The stages of the route\<close>

lemma POST_stages:
  assumes "request_json b = Inr bd" and "\<not> falsy (sports bd)" and "\<not> falsy (photo bd)"
  shows "(\<exists>err w1. generateVideoScriptUsingGemini b (the (sports bd)) (tempScriptName b) w = (Inl err, w1) \<and>
            POST n b w = (Some (Envelope 500 NoData (Some (stringify err))), w1)) \<or>
         (\<exists>u w1 err w2.
            generateVideoScriptUsingGemini b (the (sports bd)) (tempScriptName b) w = (Inr u, w1) \<and>
            generateVoiceoverUsingGoogleTTS b u (tempAudioName b) w1 = (Inl err, w2) \<and>
            POST n b w = (Some (Envelope 500 NoData (Some (stringify err))), w2)) \<or>
         (\<exists>u w1 v w2 r3 w3.
            generateVideoScriptUsingGemini b (the (sports bd)) (tempScriptName b) w = (Inr u, w1) \<and>
            generateVoiceoverUsingGoogleTTS b u (tempAudioName b) w1 = (Inr v, w2) \<and>
            generateVideoFromRunwayML n b (the (sports bd)) (the (photo bd)) (tempVideoName b) w2 = (r3, w3) \<and>
            POST n b w =
              (case r3 of None \<Rightarrow> None
               | Some (Inl err) \<Rightarrow> Some (Envelope 500 NoData (Some (stringify err)))
               | Some (Inr vid) \<Rightarrow> Some (Envelope 200 (Success u v vid) None), w3))"
proof -
  note pv = POST_valid [OF assms, of n w]
  obtain r1 w1 where e1: "generateVideoScriptUsingGemini b (the (sports bd)) (tempScriptName b) w = (r1, w1)"
    by (cases "generateVideoScriptUsingGemini b (the (sports bd)) (tempScriptName b) w")
  show ?thesis
  proof (cases r1)
    case (Inl err)
    with pv e1 show ?thesis by simp
  next
    case u: (Inr u)
    obtain r2 w2 where e2: "generateVoiceoverUsingGoogleTTS b u (tempAudioName b) w1 = (r2, w2)"
      by (cases "generateVoiceoverUsingGoogleTTS b u (tempAudioName b) w1")
    show ?thesis
    proof (cases r2)
      case (Inl err)
      with pv e1 u e2 show ?thesis by simp
    next
      case v: (Inr v)
      obtain r3 w3 where e3: "generateVideoFromRunwayML n b (the (sports bd)) (the (photo bd))
                                 (tempVideoName b) w2 = (r3, w3)"
        by (cases "generateVideoFromRunwayML n b (the (sports bd)) (the (photo bd)) (tempVideoName b) w2")
      have "POST n b w =
              (case r3 of None \<Rightarrow> None
               | Some (Inl err) \<Rightarrow> Some (Envelope 500 NoData (Some (stringify err)))
               | Some (Inr vid) \<Rightarrow> Some (Envelope 200 (Success u v vid) None), w3)"
        unfolding pv using e1 u e2 v e3 by (simp split: option.splits sum.splits)
      with e1 u e2 v e3 show ?thesis by blast
    qed
  qed
qed

lemma kept_issued:
  assumes "kept b w w'"
  shows "(\<forall>p. bucket w p \<noteq> None \<longrightarrow> bucket w' p \<noteq> None) \<and>
         (\<forall>p ft c. Save p ft c \<in> set (issued w w') \<longrightarrow> file_save b p ft c = None \<longrightarrow>
                    bucket w' p \<noteq> None)"
proof -
  from assms obtain new where n: "events w' = events w @ new"
    and s: "\<forall>p ft c. Save p ft c \<in> set new \<longrightarrow> file_save b p ft c = None \<longrightarrow> bucket w' p \<noteq> None"
    and m: "\<forall>p. bucket w p \<noteq> None \<longrightarrow> bucket w' p \<noteq> None"
    unfolding kept_def by (elim exE conjE)
  from n have "issued w w' = new" by (rule issued_append)
  with s m show ?thesis by simp
qed

lemma names:
  "filePath Temp (tempScriptName b) = ''temp/script-'' @ randomId b @ ''.txt''"
  "filePath Temp (tempAudioName b) = ''temp/audio-'' @ randomId b @ ''.mp3''"
  "filePath Temp (tempVideoName b) = ''temp/video-'' @ randomId b @ ''.mp4''"
  "publicUrl Temp (tempScriptName b) = ''https://storage.googleapis.com/sehban/temp/script-'' @ randomId b @ ''.txt''"
  "publicUrl Temp (tempAudioName b) = ''https://storage.googleapis.com/sehban/temp/audio-'' @ randomId b @ ''.mp3''"
  "publicUrl Temp (tempVideoName b) = ''https://storage.googleapis.com/sehban/temp/video-'' @ randomId b @ ''.mp4''"
  by (simp_all add: paths tempScriptName_def tempAudioName_def tempVideoName_def)

lemma cricket_id: "randomId cricket_backends = ''1746000000042''"
  by (simp add: randomId_def string_of_nat.simps digit_def)

lemma cricket_run:
  "POST 3 cricket_backends idle =
     (Some (Envelope 200
        (Success ''https://storage.googleapis.com/sehban/temp/script-1746000000042.txt''
                 ''https://storage.googleapis.com/sehban/temp/audio-1746000000042.mp3''
                 ''https://storage.googleapis.com/sehban/temp/video-1746000000042.mp4'') None),
      \<lparr>events =
         [GenerateContent (prompt ''cricket''),
          Save ''temp/script-1746000000042.txt'' ''text/plain'' (Text ''Cricket began in southern England''),
          MakePublic ''temp/script-1746000000042.txt'',
          Fetch ''https://storage.googleapis.com/sehban/temp/script-1746000000042.txt'',
          SynthesizeSpeech ''Cricket began in southern England'',
          Save ''temp/audio-1746000000042.mp3'' ''audio/mpeg'' (Buffer ''ID3''),
          MakePublic ''temp/audio-1746000000042.mp3'',
          ImageToVideoCreate ''data:image/jpeg;base64,AAAA'',
          Sleep 10000, TasksRetrieve ''42'', Sleep 10000, TasksRetrieve ''42'',
          Sleep 10000, TasksRetrieve ''42'',
          HttpsGet ''https://cdn/example.mp4'',
          Save ''temp/video-1746000000042.mp4'' ''video/mp4'' (Buffer ''ftypmdat''),
          MakePublic ''temp/video-1746000000042.mp4''],
       bucket =
         [''temp/script-1746000000042.txt'' \<mapsto>
            \<lparr>contentType = ''text/plain'', payload = Text ''Cricket began in southern England'',
             isPublic = True\<rparr>,
          ''temp/audio-1746000000042.mp3'' \<mapsto>
            \<lparr>contentType = ''audio/mpeg'', payload = Buffer ''ID3'', isPublic = True\<rparr>,
          ''temp/video-1746000000042.mp4'' \<mapsto>
            \<lparr>contentType = ''video/mp4'', payload = Buffer ''ftypmdat'', isPublic = True\<rparr>]\<rparr>)"
proof -
  let ?t = "\<lparr>status = ''SUCCEEDED'', task_output = Some [''https://cdn/example.mp4'']\<rparr>"
  let ?hr = "\<lparr>statusCode = 200, chunks = [''ftyp'', ''mdat''], stream_error = None\<rparr>"
  let ?resp = "\<lparr>ok = True, resp_status = 200, statusText = ''OK'',
                body_text = ''Cricket began in southern England''\<rparr>"
  have "POST 3 cricket_backends idle = (Some (Envelope 200 (Success (publicUrl Temp (tempScriptName cricket_backends))
                                         (publicUrl Temp (tempAudioName cricket_backends))
                                         (publicUrl Temp (tempVideoName cricket_backends))) None),
            \<lparr>events = events idle @
                [GenerateContent (prompt ''cricket''),
                 Save (filePath Temp (tempScriptName cricket_backends)) ''text/plain'' (Text ''Cricket began in southern England''),
                 MakePublic (filePath Temp (tempScriptName cricket_backends)),
                 Fetch (publicUrl Temp (tempScriptName cricket_backends)),
                 SynthesizeSpeech (body_text ?resp),
                 Save (filePath Temp (tempAudioName cricket_backends)) ''audio/mpeg'' (Buffer ''ID3''),
                 MakePublic (filePath Temp (tempAudioName cricket_backends)),
                 ImageToVideoCreate ''data:image/jpeg;base64,AAAA''] @ poll_calls (Suc 2) ''42'' @
                [HttpsGet ''https://cdn/example.mp4'',
                 Save (filePath Temp (tempVideoName cricket_backends)) ''video/mp4'' (Buffer (concat (chunks ?hr))),
                 MakePublic (filePath Temp (tempVideoName cricket_backends))],
             bucket = (bucket idle)
                (filePath Temp (tempScriptName cricket_backends) \<mapsto>
                   \<lparr>contentType = ''text/plain'', payload = Text ''Cricket began in southern England'', isPublic = True\<rparr>,
                 filePath Temp (tempAudioName cricket_backends) \<mapsto>
                   \<lparr>contentType = ''audio/mpeg'', payload = Buffer ''ID3'', isPublic = True\<rparr>,
                 filePath Temp (tempVideoName cricket_backends) \<mapsto>
                   \<lparr>contentType = ''video/mp4'', payload = Buffer (concat (chunks ?hr)),
                    isPublic = True\<rparr>)\<rparr>)"
    by (rule POST_succeeds [where t = ?t and resp = ?resp]) (simp_all add: first_output_def)
  then show ?thesis
    by (simp add: names cricket_id idle_def numeral_2_eq_2)
qed

lemma failed_sel [simp]:
  "request_json failed_backends = request_json cricket_backends"
  "date_now failed_backends = date_now cricket_backends"
  "models_generateContent failed_backends = models_generateContent cricket_backends"
  "node_fetch failed_backends = node_fetch cricket_backends"
  "synthesizeSpeech failed_backends = synthesizeSpeech cricket_backends"
  "imageToVideo_create failed_backends = imageToVideo_create cricket_backends"
  "tasks_retrieve failed_backends k i =
     Inr (if k < 2 then \<lparr>status = ''RUNNING'', task_output = None\<rparr>
          else \<lparr>status = ''FAILED'', task_output = None\<rparr>)"
  "file_save failed_backends = file_save cricket_backends"
  "file_makePublic failed_backends = file_makePublic cricket_backends"
  by (simp_all add: failed_backends_def)

lemma refused_sel [simp]:
  "request_json refused_backends = request_json cricket_backends"
  "date_now refused_backends = date_now cricket_backends"
  "models_generateContent refused_backends = models_generateContent cricket_backends"
  "node_fetch refused_backends = node_fetch cricket_backends"
  "synthesizeSpeech refused_backends = synthesizeSpeech cricket_backends"
  "imageToVideo_create refused_backends = imageToVideo_create cricket_backends"
  "tasks_retrieve refused_backends = tasks_retrieve cricket_backends"
  "https_get refused_backends u = RequestError (Error ''connect ECONNREFUSED 203.0.113.7:443'')"
  "file_save refused_backends = file_save cricket_backends"
  "file_makePublic refused_backends = file_makePublic cricket_backends"
  by (simp_all add: refused_backends_def)

lemma football_sel [simp]:
  "request_json football_backends =
     Inr \<lparr>sports = Some ''football'', photo = Some ''data:image/jpeg;base64,BBBB''\<rparr>"
  "date_now football_backends = date_now cricket_backends"
  "models_generateContent football_backends p = Inr (Some ''Football took shape in England'')"
  "node_fetch football_backends = node_fetch cricket_backends"
  "synthesizeSpeech football_backends = synthesizeSpeech cricket_backends"
  "imageToVideo_create football_backends = imageToVideo_create cricket_backends"
  "tasks_retrieve football_backends = tasks_retrieve cricket_backends"
  "https_get football_backends = https_get cricket_backends"
  "file_save football_backends = file_save cricket_backends"
  "file_makePublic football_backends = file_makePublic cricket_backends"
  by (simp_all add: football_backends_def)

lemma same_clock_same_names:
  "date_now b = date_now b' \<Longrightarrow>
     tempScriptName b = tempScriptName b' \<and> tempAudioName b = tempAudioName b' \<and>
     tempVideoName b = tempVideoName b'"
  by (simp add: tempScriptName_def tempAudioName_def tempVideoName_def randomId_def)

lemma football_id: "randomId football_backends = ''1746000000042''"
  using cricket_id by (simp add: randomId_def)

lemma football_run:
  "POST 3 football_backends (snd (POST 3 cricket_backends idle)) =
     (Some (Envelope 200
        (Success ''https://storage.googleapis.com/sehban/temp/script-1746000000042.txt''
                 ''https://storage.googleapis.com/sehban/temp/audio-1746000000042.mp3''
                 ''https://storage.googleapis.com/sehban/temp/video-1746000000042.mp4'') None),
      \<lparr>events = events (snd (POST 3 cricket_backends idle)) @
         [GenerateContent (prompt ''football''),
          Save ''temp/script-1746000000042.txt'' ''text/plain'' (Text ''Football took shape in England''),
          MakePublic ''temp/script-1746000000042.txt'',
          Fetch ''https://storage.googleapis.com/sehban/temp/script-1746000000042.txt'',
          SynthesizeSpeech ''Cricket began in southern England'',
          Save ''temp/audio-1746000000042.mp3'' ''audio/mpeg'' (Buffer ''ID3''),
          MakePublic ''temp/audio-1746000000042.mp3'',
          ImageToVideoCreate ''data:image/jpeg;base64,BBBB'',
          Sleep 10000, TasksRetrieve ''42'',
          HttpsGet ''https://cdn/example.mp4'',
          Save ''temp/video-1746000000042.mp4'' ''video/mp4'' (Buffer ''ftypmdat''),
          MakePublic ''temp/video-1746000000042.mp4''],
       bucket =
         [''temp/script-1746000000042.txt'' \<mapsto>
            \<lparr>contentType = ''text/plain'', payload = Text ''Football took shape in England'',
             isPublic = True\<rparr>,
          ''temp/audio-1746000000042.mp3'' \<mapsto>
            \<lparr>contentType = ''audio/mpeg'', payload = Buffer ''ID3'', isPublic = True\<rparr>,
          ''temp/video-1746000000042.mp4'' \<mapsto>
            \<lparr>contentType = ''video/mp4'', payload = Buffer ''ftypmdat'', isPublic = True\<rparr>]\<rparr>)"
proof -
  let ?w = "snd (POST 3 cricket_backends idle)"
  let ?b = football_backends
  let ?t = "\<lparr>status = ''SUCCEEDED'', task_output = Some [''https://cdn/example.mp4'']\<rparr>"
  let ?hr = "\<lparr>statusCode = 200, chunks = [''ftyp'', ''mdat''], stream_error = None\<rparr>"
  let ?resp = "\<lparr>ok = True, resp_status = 200, statusText = ''OK'',
                body_text = ''Cricket began in southern England''\<rparr>"
  have pw: "polls ?w = 3" unfolding cricket_run by simp
  have "POST 3 ?b ?w = (Some (Envelope 200 (Success (publicUrl Temp (tempScriptName ?b))
                                         (publicUrl Temp (tempAudioName ?b))
                                         (publicUrl Temp (tempVideoName ?b))) None),
            \<lparr>events = events ?w @
                [GenerateContent (prompt ''football''),
                 Save (filePath Temp (tempScriptName ?b)) ''text/plain'' (Text ''Football took shape in England''),
                 MakePublic (filePath Temp (tempScriptName ?b)),
                 Fetch (publicUrl Temp (tempScriptName ?b)),
                 SynthesizeSpeech (body_text ?resp),
                 Save (filePath Temp (tempAudioName ?b)) ''audio/mpeg'' (Buffer ''ID3''),
                 MakePublic (filePath Temp (tempAudioName ?b)),
                 ImageToVideoCreate ''data:image/jpeg;base64,BBBB''] @ poll_calls (Suc 0) ''42'' @
                [HttpsGet ''https://cdn/example.mp4'',
                 Save (filePath Temp (tempVideoName ?b)) ''video/mp4'' (Buffer (concat (chunks ?hr))),
                 MakePublic (filePath Temp (tempVideoName ?b))],
             bucket = (bucket ?w)
                (filePath Temp (tempScriptName ?b) \<mapsto>
                   \<lparr>contentType = ''text/plain'', payload = Text ''Football took shape in England'', isPublic = True\<rparr>,
                 filePath Temp (tempAudioName ?b) \<mapsto>
                   \<lparr>contentType = ''audio/mpeg'', payload = Buffer ''ID3'', isPublic = True\<rparr>,
                 filePath Temp (tempVideoName ?b) \<mapsto>
                   \<lparr>contentType = ''video/mp4'', payload = Buffer (concat (chunks ?hr)),
                    isPublic = True\<rparr>)\<rparr>)"
    by (rule POST_succeeds [where t = ?t and resp = ?resp]) (simp_all add: first_output_def pw)
  moreover have "bucket ?w = [''temp/script-1746000000042.txt'' \<mapsto>
            \<lparr>contentType = ''text/plain'', payload = Text ''Cricket began in southern England'',
             isPublic = True\<rparr>,
          ''temp/audio-1746000000042.mp3'' \<mapsto>
            \<lparr>contentType = ''audio/mpeg'', payload = Buffer ''ID3'', isPublic = True\<rparr>,
          ''temp/video-1746000000042.mp4'' \<mapsto>
            \<lparr>contentType = ''video/mp4'', payload = Buffer ''ftypmdat'', isPublic = True\<rparr>]"
    unfolding cricket_run by simp
  ultimately show ?thesis
    by (simp add: names football_id)
qed

subsection \<open>Observing more iterations\<close>

text \<open>
  Once a call has returned within \<open>n\<close> observed iterations, it returns the same result and
  the same world within any larger number: the number of iterations is an observation
  bound and takes no part in the result.
\<close>

lemma poll_stable:
  "poll n b tid w = (Some r, w') \<Longrightarrow> poll (n + m) b tid w = (Some r, w')"
proof (induction n arbitrary: w)
  case 0
  then show ?case by simp
next
  case (Suc n)
  let ?w2 = "issue (TasksRetrieve tid) (issue (Sleep 10000) w)"
  show ?case
  proof (cases "\<exists>t. tasks_retrieve b (polls w) tid = Inr t \<and> \<not> (status t \<in> set [''SUCCEEDED'', ''FAILED''])")
    case True
    then obtain t where t: "tasks_retrieve b (polls w) tid = Inr t"
      "\<not> (status t \<in> set [''SUCCEEDED'', ''FAILED''])" by blast
    from Suc.prems have "poll n b tid ?w2 = (Some r, w')"
      unfolding poll_step_continue [OF t] .
    from Suc.IH [OF this] show ?thesis
      using poll_step_continue [OF t, of "n + m"] by simp
  next
    case False
    then have "poll (Suc k) b tid w = poll (Suc 0) b tid w" for k
      by (auto simp: Let_def split: sum.splits)
    from this [of n] this [of "n + m"] Suc.prems show ?thesis by simp
  qed
qed

lemma video_stable:
  assumes "generateVideoFromRunwayML n b sp ph name w = (Some r, w')"
  shows "generateVideoFromRunwayML (n + m) b sp ph name w = (Some r, w')"
proof (cases "imageToVideo_create b ph")
  case (Inl err)
  from video_create_throws [OF this] assms show ?thesis by simp
next
  case (Inr tid)
  let ?w0 = "issue (ImageToVideoCreate ph) w"
  obtain pr w1 where p: "poll n b tid ?w0 = (pr, w1)" by (cases "poll n b tid ?w0")
  show ?thesis
  proof (cases pr)
    case None
    with video_pending [OF Inr] p assms show ?thesis by simp
  next
    case (Some a)
    from poll_stable [OF p [unfolded Some]] have p': "poll (n + m) b tid ?w0 = (Some a, w1)" .
    show ?thesis
    proof (cases a)
      case (Inl err)
      from video_poll_throws [OF Inr p [unfolded Some Inl], of sp name]
           video_poll_throws [OF Inr p' [unfolded Inl], of sp name] assms
      show ?thesis by simp
    next
      case t: (Inr t)
      from video_unfold [OF Inr p [unfolded Some t], of sp name]
           video_unfold [OF Inr p' [unfolded t], of sp name] assms
      show ?thesis by simp
    qed
  qed
qed

lemma POST_stable:
  assumes "POST n b w = (Some r, w')"
  shows "POST (n + m) b w = (Some r, w')"
proof (cases "\<exists>bd. request_json b = Inr bd \<and> \<not> falsy (sports bd) \<and> \<not> falsy (photo bd)")
  case False
  then have "POST k b w = POST 0 b w" for k
    by (auto simp: POST_def split: sum.splits)
  from this [of n] this [of "n + m"] assms show ?thesis by simp
next
  case True
  then obtain bd where bd: "request_json b = Inr bd" "\<not> falsy (sports bd)" "\<not> falsy (photo bd)"
    by blast
  obtain r1 w1 where e1: "generateVideoScriptUsingGemini b (the (sports bd)) (tempScriptName b) w = (r1, w1)"
    by (cases "generateVideoScriptUsingGemini b (the (sports bd)) (tempScriptName b) w")
  show ?thesis
  proof (cases r1)
    case (Inl err)
    with assms e1 show ?thesis unfolding POST_valid [OF bd] by simp
  next
    case u: (Inr u)
    obtain r2 w2 where e2: "generateVoiceoverUsingGoogleTTS b u (tempAudioName b) w1 = (r2, w2)"
      by (cases "generateVoiceoverUsingGoogleTTS b u (tempAudioName b) w1")
    show ?thesis
    proof (cases r2)
      case (Inl err)
      with assms e1 u e2 show ?thesis unfolding POST_valid [OF bd] by simp
    next
      case v: (Inr v)
      let ?video = "\<lambda>k. generateVideoFromRunwayML k b (the (sports bd)) (the (photo bd)) (tempVideoName b) w2"
      from assms e1 u e2 v obtain r3 where e3: "?video n = (Some r3, w')"
        unfolding POST_valid [OF bd] by (auto split: prod.splits option.splits sum.splits)
      from video_stable [OF e3] have e3': "?video (n + m) = (Some r3, w')" .
      from assms e1 u e2 v e3 e3' show ?thesis
        unfolding POST_valid [OF bd] by simp
    qed
  qed
qed

subsection \<open>A stage that throws\<close>

text \<open>
  Whatever a stage throws, the route answers with the envelope whose status field is 500,
  whose data are empty and whose errors hold the serialised thrown value, in the world the
  failing stage left; no object is removed from the bucket.
\<close>

lemma POST_stage_throws:
  assumes "request_json b = Inr bd" and "\<not> falsy (sports bd)" and "\<not> falsy (photo bd)"
      and "generateVideoScriptUsingGemini b (the (sports bd)) (tempScriptName b) w = (Inl err, w') \<or>
           (\<exists>u w1.
              generateVideoScriptUsingGemini b (the (sports bd)) (tempScriptName b) w = (Inr u, w1) \<and>
              generateVoiceoverUsingGoogleTTS b u (tempAudioName b) w1 = (Inl err, w')) \<or>
           (\<exists>u w1 v w2.
              generateVideoScriptUsingGemini b (the (sports bd)) (tempScriptName b) w = (Inr u, w1) \<and>
              generateVoiceoverUsingGoogleTTS b u (tempAudioName b) w1 = (Inr v, w2) \<and>
              generateVideoFromRunwayML n b (the (sports bd)) (the (photo bd)) (tempVideoName b) w2 =
                (Some (Inl err), w'))"
  shows "POST n b w = (Some (Envelope 500 NoData (Some (stringify err))), w') \<and>
         (\<forall>p. bucket w p \<noteq> None \<longrightarrow> bucket w' p \<noteq> None) \<and>
         (\<forall>p ft c. Save p ft c \<in> set (issued w w') \<longrightarrow> file_save b p ft c = None \<longrightarrow>
                    bucket w' p \<noteq> None)"
proof -
  note pv = POST_valid [OF assms(1-3), of n w]
  from assms(4) have "POST n b w = (Some (Envelope 500 NoData (Some (stringify err))), w') \<and> kept b w w'"
  proof (elim disjE exE conjE, goal_cases)
    case 1
    from pv 1 script_kept [OF 1] show ?case by simp
  next
    case (2 u w1)
    from pv 2 kept_trans [OF script_kept [OF 2(1)] voice_kept [OF 2(2)]] show ?case by simp
  next
    case (3 u w1 v w2)
    from kept_trans [OF kept_trans [OF script_kept [OF 3(1)] voice_kept [OF 3(2)]] video_kept [OF 3(3)]]
    have "kept b w w'" .
    with pv 3 show ?case by simp
  qed
  with kept_issued [of b w w'] show ?thesis by blast
qed

text \<open>
  Two runs in which a stage fails: Gemini answers without text, so that the script
  generator throws; and the connection of the download is refused, so that the promise of
  \<open>fetchVideoAsBuffer\<close> is never settled.
\<close>

lemma silent_run:
  "generateVideoScriptUsingGemini silent_backends ''cricket'' (tempScriptName silent_backends) idle =
     (Inl (Error ''Failed to generate a script. The response is empty.''),
      issue (GenerateContent (prompt ''cricket'')) idle) \<and>
   POST n silent_backends idle =
     (Some (Envelope 500 NoData (Some ''{}'')), issue (GenerateContent (prompt ''cricket'')) idle)"
proof -
  have e1: "generateVideoScriptUsingGemini silent_backends ''cricket'' (tempScriptName silent_backends) idle =
     (Inl (Error ''Failed to generate a script. The response is empty.''),
      issue (GenerateContent (prompt ''cricket'')) idle)"
    by (simp add: generateVideoScriptUsingGemini_def Let_def silent_backends_def falsy_def)
  have bd: "request_json silent_backends =
              Inr \<lparr>sports = Some ''cricket'', photo = Some ''data:image/jpeg;base64,AAAA''\<rparr>"
    by (simp add: silent_backends_def)
  have v: "\<not> falsy (sports \<lparr>sports = Some ''cricket'', photo = Some ''data:image/jpeg;base64,AAAA''\<rparr>)"
          "\<not> falsy (photo \<lparr>sports = Some ''cricket'', photo = Some ''data:image/jpeg;base64,AAAA''\<rparr>)"
    by (simp_all add: falsy_def)
  have "POST n silent_backends idle =
     (Some (Envelope 500 NoData (Some ''{}'')), issue (GenerateContent (prompt ''cricket'')) idle)"
    unfolding POST_valid [OF bd v] using e1 by simp
  with e1 show ?thesis by simp
qed

lemma refused_run: "fst (POST n refused_backends idle) = None"
proof -
  let ?b = refused_backends
  let ?bd = "\<lparr>sports = Some ''cricket'', photo = Some ''data:image/jpeg;base64,AAAA''\<rparr>"
  let ?s = "''Cricket began in southern England''"
  let ?resp = "\<lparr>ok = True, resp_status = 200, statusText = ''OK'', body_text = ?s\<rparr>"
  have bd: "request_json ?b = Inr ?bd" by simp
  have v: "\<not> falsy (sports ?bd)" "\<not> falsy (photo ?bd)" by (simp_all add: falsy_def)
  define w1 where "w1 =
     \<lparr>events = events idle @ [GenerateContent (prompt ''cricket''),
                   Save (filePath Temp (tempScriptName ?b)) ''text/plain'' (Text ?s),
                   MakePublic (filePath Temp (tempScriptName ?b))],
      bucket = (bucket idle)(filePath Temp (tempScriptName ?b) \<mapsto>
                   \<lparr>contentType = ''text/plain'', payload = Text ?s, isPublic = True\<rparr>)\<rparr>"
  have e1: "generateVideoScriptUsingGemini ?b (the (sports ?bd)) (tempScriptName ?b) idle =
              (Inr (publicUrl Temp (tempScriptName ?b)), w1)"
    unfolding w1_def by simp (rule script_accepted, simp_all)
  define w2 where "w2 =
     \<lparr>events = events w1 @ [Fetch (publicUrl Temp (tempScriptName ?b)),
                   SynthesizeSpeech (body_text ?resp),
                   Save (filePath Temp (tempAudioName ?b)) ''audio/mpeg'' (Buffer ''ID3''),
                   MakePublic (filePath Temp (tempAudioName ?b))],
      bucket = (bucket w1)(filePath Temp (tempAudioName ?b) \<mapsto>
                   \<lparr>contentType = ''audio/mpeg'', payload = Buffer ''ID3'', isPublic = True\<rparr>)\<rparr>"
  have e2: "generateVoiceoverUsingGoogleTTS ?b (publicUrl Temp (tempScriptName ?b)) (tempAudioName ?b) w1 =
              (Inr (publicUrl Temp (tempAudioName ?b)), w2)"
    unfolding w2_def by (rule voice_accepted) simp_all
  let ?video = "generateVideoFromRunwayML n ?b (the (sports ?bd)) (the (photo ?bd)) (tempVideoName ?b) w2"
  have c: "imageToVideo_create ?b (the (photo ?bd)) = Inr ''42''" by simp
  have a: "\<forall>k. \<exists>t. tasks_retrieve ?b k ''42'' = Inr t \<and>
             (status t \<in> set [''SUCCEEDED'', ''FAILED''] \<longrightarrow>
                status t = ''SUCCEEDED'' \<and> \<not> falsy (first_output t) \<and>
                (\<exists>e. https_get ?b (the (first_output t)) = RequestError e))"
    by (simp add: first_output_def falsy_def)
  from video_request_error [OF c a, of n "the (sports ?bd)" "tempVideoName ?b" w2]
  obtain w3 where e3: "?video = (None, w3)" by (cases ?video) simp
  have "POST n ?b idle = (None, w3)"
    by (simp only: POST_valid [OF bd v] e1 e2 e3 prod.case sum.case option.case)
  then show ?thesis by simp
qed

section \<open>The claims\<close>

text \<open>
  C8. The URL that \<open>uploadToGCPStorage\<close> returns is built from the bucket name, the
  prefix of the category and the name of the artifact, and from nothing else. When an
  upload has returned a URL and the same name is uploaded again in the same category, with
  any other content and MIME type that the storage backend accepts, the second upload
  returns the identical URL and is no error, and the object at the path now holds the
  second content.
\<close>

theorem upload_url_independent_of_content:
  assumes "uploadToGCPStorage b fn ft1 c1 g w = (Inr u1, w1)"
      and "file_save b (filePath g fn) ft2 c2 = None"
  shows "\<exists>w2. uploadToGCPStorage b fn ft2 c2 g w1 = (Inr u1, w2) \<and>
           u1 = ''https://storage.googleapis.com/sehban/'' @ (if g = Temp then ''temp/'' else ''reel/'') @ fn \<and>
           bucket w2 (filePath g fn) = Some \<lparr>contentType = ft2, payload = c2, isPublic = True\<rparr>"
proof -
  from upload_returns [OF assms(1)]
  have u1: "u1 = publicUrl g fn" and pub: "file_makePublic b (filePath g fn) = None" by simp_all
  have "u1 = ''https://storage.googleapis.com/sehban/'' @ (if g = Temp then ''temp/'' else ''reel/'') @ fn"
    using u1 by (cases g) (simp_all add: paths)
  then show ?thesis
    using upload_accepted [OF assms(2) pub, of w1] u1 by simp
qed

theorem upload_url_independent_of_content_witness:
  "uploadToGCPStorage cricket_backends ''video-7.mp4'' ''video/mp4'' (Buffer ''abc'') Temp idle =
     (Inr ''https://storage.googleapis.com/sehban/temp/video-7.mp4'',
      \<lparr>events = [Save ''temp/video-7.mp4'' ''video/mp4'' (Buffer ''abc''), MakePublic ''temp/video-7.mp4''],
       bucket = [''temp/video-7.mp4'' \<mapsto> \<lparr>contentType = ''video/mp4'', payload = Buffer ''abc'', isPublic = True\<rparr>]\<rparr>) \<and>
   (\<exists>w2. uploadToGCPStorage cricket_backends ''video-7.mp4'' ''text/plain'' (Text ''xyz'') Temp
            \<lparr>events = [Save ''temp/video-7.mp4'' ''video/mp4'' (Buffer ''abc''), MakePublic ''temp/video-7.mp4''],
             bucket = [''temp/video-7.mp4'' \<mapsto> \<lparr>contentType = ''video/mp4'', payload = Buffer ''abc'', isPublic = True\<rparr>]\<rparr> =
            (Inr ''https://storage.googleapis.com/sehban/temp/video-7.mp4'', w2) \<and>
          bucket w2 ''temp/video-7.mp4'' = Some \<lparr>contentType = ''text/plain'', payload = Text ''xyz'', isPublic = True\<rparr>)"
proof -
  have first: "uploadToGCPStorage cricket_backends ''video-7.mp4'' ''video/mp4'' (Buffer ''abc'') Temp idle =
     (Inr ''https://storage.googleapis.com/sehban/temp/video-7.mp4'',
      \<lparr>events = [Save ''temp/video-7.mp4'' ''video/mp4'' (Buffer ''abc''), MakePublic ''temp/video-7.mp4''],
       bucket = [''temp/video-7.mp4'' \<mapsto> \<lparr>contentType = ''video/mp4'', payload = Buffer ''abc'', isPublic = True\<rparr>]\<rparr>)"
    by (simp add: upload_accepted idle_def paths)
  have accepted: "file_save cricket_backends (filePath Temp ''video-7.mp4'') ''text/plain'' (Text ''xyz'') = None"
    by simp
  from upload_url_independent_of_content [OF first accepted] first show ?thesis
    by (simp add: paths)
qed



text \<open>
  C10. Once the job has been submitted, the calls of the video generator are the
  submission, then \<open>k\<close> rounds of a sleep of 10000 ms immediately followed by one status
  query, then calls that are neither sleeps nor status queries. So every status query
  comes directly after a full sleep. The number of rounds is at least one whenever the
  generator has returned and whenever the loop has ended, whatever the first answer is
  (also a job that is already terminal at its first query). While the generator has not
  returned, the number of rounds is the number of observed iterations, unless the loop
  has ended and the only later call is a download whose request has failed, which the
  generator waits for without end.
\<close>

theorem every_status_query_follows_a_sleep:
  assumes "imageToVideo_create b ph = Inr tid"
      and "generateVideoFromRunwayML n b sp ph name w = (r, w')"
  shows "\<exists>k rest. issued w w' =
             ImageToVideoCreate ph # concat (replicate k [Sleep 10000, TasksRetrieve tid]) @ rest \<and>
           (\<forall>ev\<in>set rest. \<not> is_retrieve ev \<and> \<not> is_sleep ev) \<and>
           k \<le> n \<and> (r \<noteq> None \<longrightarrow> 1 \<le> k) \<and> (k < n \<longrightarrow> 1 \<le> k) \<and>
           (r = None \<longrightarrow>
              k = n \<or> (\<exists>u e. rest = [HttpsGet u] \<and> https_get b u = RequestError e))"
proof -
  from video_trace [OF assms] obtain k rest where k: "k \<le> n"
    and ev: "events w' = events w @ ImageToVideoCreate ph # poll_calls k tid @ rest"
    and cl: "\<forall>ev\<in>set rest. is_https_get ev \<or> is_store ev"
    and pos: "r \<noteq> None \<longrightarrow> 0 < k" and ended: "k = n \<or> 0 < k"
    and pend: "r = None \<longrightarrow> k = n \<and> rest = [] \<or>
              (\<exists>u. rest = [HttpsGet u] \<and> (\<exists>e. https_get b u = RequestError e))"
    by (elim exE conjE)
  from ev have 1: "issued w w' =
             ImageToVideoCreate ph # concat (replicate k [Sleep 10000, TasksRetrieve tid]) @ rest"
    by (simp add: issued_def poll_calls_def)
  from cl have 2: "\<forall>ev\<in>set rest. \<not> is_retrieve ev \<and> \<not> is_sleep ev"
    using class_not_poll by blast
  from pos have 3: "r \<noteq> None \<longrightarrow> 1 \<le> k" by auto
  from ended have 5: "k < n \<longrightarrow> 1 \<le> k" by auto
  from pend have 4: "r = None \<longrightarrow>
              k = n \<or> (\<exists>u e. rest = [HttpsGet u] \<and> https_get b u = RequestError e)" by auto
  show ?thesis
    apply (rule exI [of _ k])
    apply (rule exI [of _ rest])
    using 1 2 k 3 5 4 apply (intro conjI)
         apply assumption+
    done
qed

theorem every_status_query_follows_a_sleep_witness:
  "tasks_retrieve done_backends 0 ''42'' =
     Inr \<lparr>status = ''SUCCEEDED'', task_output = Some [''https://cdn/example.mp4'']\<rparr> \<and>
   (\<exists>k rest. issued idle (snd (generateVideoFromRunwayML 1 done_backends ''cricket''
                 ''data:image/jpeg;base64,AAAA'' ''video-7.mp4'' idle)) =
              ImageToVideoCreate ''data:image/jpeg;base64,AAAA'' #
                concat (replicate k [Sleep 10000, TasksRetrieve ''42'']) @ rest \<and> k = 1)"
proof -
  have c: "imageToVideo_create done_backends ''data:image/jpeg;base64,AAAA'' = Inr ''42''"
    by (simp add: done_backends_def)
  from every_status_query_follows_a_sleep [OF c done_run]
  obtain k rest where "issued idle \<lparr>events = [ImageToVideoCreate ''data:image/jpeg;base64,AAAA'', Sleep 10000, TasksRetrieve ''42'',
                 HttpsGet ''https://cdn/example.mp4'',
                 Save ''temp/video-7.mp4'' ''video/mp4'' (Buffer ''ftypmdat''),
                 MakePublic ''temp/video-7.mp4''],
       bucket = [''temp/video-7.mp4'' \<mapsto>
                  \<lparr>contentType = ''video/mp4'', payload = Buffer ''ftypmdat'', isPublic = True\<rparr>]\<rparr> =
        ImageToVideoCreate ''data:image/jpeg;base64,AAAA'' #
                concat (replicate k [Sleep 10000, TasksRetrieve ''42'']) @ rest"
    and "k \<le> 1" and "1 \<le> k"
    by auto
  then show ?thesis
    unfolding done_run by (auto simp: done_backends_def)
qed

text \<open>
  C4, as amended. When the job has been submitted and every status query is answered by
  a task whose status is neither SUCCEEDED nor FAILED, the video generator has not
  returned after \<open>n\<close> iterations of the loop, for every \<open>n\<close>, and has issued exactly \<open>n\<close>
  status queries by then: it polls for ever and produces no failure of any kind.
\<close>

theorem polling_never_times_out:
  assumes "imageToVideo_create b ph = Inr tid"
      and "\<forall>k. \<exists>t. tasks_retrieve b k tid = Inr t \<and> status t \<noteq> ''SUCCEEDED'' \<and> status t \<noteq> ''FAILED''"
  shows "fst (generateVideoFromRunwayML n b sp ph name w) = None \<and>
         length (filter is_retrieve (issued w (snd (generateVideoFromRunwayML n b sp ph name w)))) = n"
proof -
  from assms(2) have "\<forall>k. \<exists>t. tasks_retrieve b k tid = Inr t \<and>
      \<not> (status t \<in> set [''SUCCEEDED'', ''FAILED''])" by simp
  from video_never_terminal [OF assms(1) this, of n sp name w] show ?thesis
    by (simp add: issued_def)
qed

theorem polling_never_times_out_witness:
  "fst (generateVideoFromRunwayML 5 stuck_backends ''cricket'' ''data:image/jpeg;base64,AAAA''
          ''video-7.mp4'' idle) = None \<and>
   length (filter is_retrieve (issued idle (snd (generateVideoFromRunwayML 5 stuck_backends ''cricket''
          ''data:image/jpeg;base64,AAAA'' ''video-7.mp4'' idle)))) = 5"
proof -
  have c: "imageToVideo_create stuck_backends ''data:image/jpeg;base64,AAAA'' = Inr ''42''"
    by (simp add: stuck_backends_def)
  have s: "\<forall>k. \<exists>t. tasks_retrieve stuck_backends k ''42'' = Inr t \<and>
             status t \<noteq> ''SUCCEEDED'' \<and> status t \<noteq> ''FAILED''"
    by (simp add: stuck_backends_def)
  from polling_never_times_out [OF c s] show ?thesis .
qed

text \<open>
  C4 as stated fails: with a backend that always answers RUNNING there is no number of
  iterations after which the generator has returned anything, a timeout included.
\<close>

theorem polling_timeout_counterexample:
  "\<not> (\<exists>n. fst (generateVideoFromRunwayML n stuck_backends ''cricket'' ''data:image/jpeg;base64,AAAA''
               ''video-7.mp4'' idle) \<noteq> None)"
proof -
  have c: "imageToVideo_create stuck_backends ''data:image/jpeg;base64,AAAA'' = Inr ''42''"
    by (simp add: stuck_backends_def)
  have s: "\<forall>k. \<exists>t. tasks_retrieve stuck_backends k ''42'' = Inr t \<and>
             \<not> (status t \<in> set [''SUCCEEDED'', ''FAILED''])"
    by (simp add: stuck_backends_def)
  show ?thesis unfolding video_never_terminal [OF c s] by simp
qed

text \<open>
  C1, as amended. When the job has been submitted, the first \<open>N\<close> status queries are
  answered RUNNING and the next one is answered by a task \<open>t\<close> that is SUCCEEDED or FAILED,
  then, as soon as more than \<open>N\<close> iterations are observed, the generator has issued
  exactly \<open>N + 1\<close> status queries, and it has issued exactly one output fetch when \<open>t\<close>
  is SUCCEEDED and carries a non-empty first output reference, and none otherwise. When
  \<open>t\<close> is FAILED it fails with the error \<open>Video generation failed.\<close>
\<close>

theorem polling_counts:
  assumes "imageToVideo_create b ph = Inr tid"
      and "\<forall>j<N. \<exists>t. tasks_retrieve b (polls w + j) tid = Inr t \<and> status t = ''RUNNING''"
      and "tasks_retrieve b (polls w + N) tid = Inr t"
      and "status t = ''SUCCEEDED'' \<or> status t = ''FAILED''"
      and "N < n"
      and "generateVideoFromRunwayML n b sp ph name w = (r, w')"
  shows "length (filter is_retrieve (issued w w')) = N + 1 \<and>
         length (filter is_https_get (issued w w')) =
           (if status t = ''SUCCEEDED'' \<and> \<not> falsy (first_output t) then 1 else 0) \<and>
         (status t = ''FAILED'' \<longrightarrow> r = Some (Inl (Error ''Video generation failed.'')))"
  using video_poll_counts [OF assms] .

theorem polling_counts_witness:
  "length (filter is_retrieve (issued idle (snd (generateVideoFromRunwayML 3 cricket_backends ''cricket''
          ''data:image/jpeg;base64,AAAA'' ''video-7.mp4'' idle)))) = 3 \<and>
   length (filter is_https_get (issued idle (snd (generateVideoFromRunwayML 3 cricket_backends ''cricket''
          ''data:image/jpeg;base64,AAAA'' ''video-7.mp4'' idle)))) = 1 \<and>
   fst (generateVideoFromRunwayML 3 failed_backends ''cricket'' ''data:image/jpeg;base64,AAAA''
          ''video-7.mp4'' idle) = Some (Inl (Error ''Video generation failed.'')) \<and>
   length (filter is_retrieve (issued idle (snd (generateVideoFromRunwayML 3 failed_backends ''cricket''
          ''data:image/jpeg;base64,AAAA'' ''video-7.mp4'' idle)))) = 3 \<and>
   length (filter is_https_get (issued idle (snd (generateVideoFromRunwayML 3 failed_backends ''cricket''
          ''data:image/jpeg;base64,AAAA'' ''video-7.mp4'' idle)))) = 0 \<and>
   fst (generateVideoFromRunwayML 3 refused_backends ''cricket'' ''data:image/jpeg;base64,AAAA''
          ''video-7.mp4'' idle) = None \<and>
   length (filter is_retrieve (issued idle (snd (generateVideoFromRunwayML 3 refused_backends ''cricket''
          ''data:image/jpeg;base64,AAAA'' ''video-7.mp4'' idle)))) = 3 \<and>
   length (filter is_https_get (issued idle (snd (generateVideoFromRunwayML 3 refused_backends ''cricket''
          ''data:image/jpeg;base64,AAAA'' ''video-7.mp4'' idle)))) = 1"
proof -
  let ?ph = "''data:image/jpeg;base64,AAAA''"
  let ?ok = "\<lparr>status = ''SUCCEEDED'', task_output = Some [''https://cdn/example.mp4'']\<rparr>"
  let ?ko = "\<lparr>status = ''FAILED'', task_output = None\<rparr>"
  have c'': "imageToVideo_create refused_backends ?ph = Inr ''42''" by simp
  have r'': "\<forall>j<2. \<exists>t. tasks_retrieve refused_backends (polls idle + j) ''42'' = Inr t \<and>
             status t = ''RUNNING''" by simp
  have l'': "tasks_retrieve refused_backends (polls idle + 2) ''42'' = Inr ?ok" by simp
  have a'': "\<forall>k. \<exists>t. tasks_retrieve refused_backends k ''42'' = Inr t \<and>
             (status t \<in> set [''SUCCEEDED'', ''FAILED''] \<longrightarrow>
                status t = ''SUCCEEDED'' \<and> \<not> falsy (first_output t) \<and>
                (\<exists>e. https_get refused_backends (the (first_output t)) = RequestError e))"
    by (simp add: first_output_def falsy_def)
  note pending = video_request_error [OF c'' a'', of 3 "''cricket''" "''video-7.mp4''" idle]
  have c: "imageToVideo_create cricket_backends ?ph = Inr ''42''" by simp
  have r: "\<forall>j<2. \<exists>t. tasks_retrieve cricket_backends (polls idle + j) ''42'' = Inr t \<and>
             status t = ''RUNNING''" by simp
  have l: "tasks_retrieve cricket_backends (polls idle + 2) ''42'' = Inr ?ok" by simp
  have t: "status ?ok = ''SUCCEEDED'' \<or> status ?ok = ''FAILED''" by simp
  have c': "imageToVideo_create failed_backends ?ph = Inr ''42''" by (simp add: failed_backends_def)
  have r': "\<forall>j<2. \<exists>t. tasks_retrieve failed_backends (polls idle + j) ''42'' = Inr t \<and>
             status t = ''RUNNING''" by (simp add: failed_backends_def)
  have l': "tasks_retrieve failed_backends (polls idle + 2) ''42'' = Inr ?ko"
    by (simp add: failed_backends_def)
  have t': "status ?ko = ''SUCCEEDED'' \<or> status ?ko = ''FAILED''" by simp
  have f: "(2::nat) < 3" by simp
  from polling_counts [OF c r l t f prod.collapse [symmetric], of "''cricket''" "''video-7.mp4''"]
       polling_counts [OF c' r' l' t' f prod.collapse [symmetric], of "''cricket''" "''video-7.mp4''"]
       polling_counts [OF c'' r'' l'' t f prod.collapse [symmetric], of "''cricket''" "''video-7.mp4''"]
       pending
  show ?thesis by (simp add: first_output_def falsy_def)
qed

text \<open>
  C1 as stated fails: a backend that answers RUNNING twice and then SUCCEEDED with no
  output makes the generator fail without any output fetch.
\<close>

theorem succeeded_without_output_counterexample:
  "tasks_retrieve no_output_backends 0 ''42'' = Inr \<lparr>status = ''RUNNING'', task_output = None\<rparr> \<and>
   tasks_retrieve no_output_backends 1 ''42'' = Inr \<lparr>status = ''RUNNING'', task_output = None\<rparr> \<and>
   tasks_retrieve no_output_backends 2 ''42'' = Inr \<lparr>status = ''SUCCEEDED'', task_output = None\<rparr> \<and>
   fst (generateVideoFromRunwayML 3 no_output_backends ''cricket'' ''data:image/jpeg;base64,AAAA''
          ''video-7.mp4'' idle) = Some (Inl (Error ''Task output is undefined or empty.'')) \<and>
   length (filter is_https_get (issued idle (snd (generateVideoFromRunwayML 3 no_output_backends
          ''cricket'' ''data:image/jpeg;base64,AAAA'' ''video-7.mp4'' idle)))) = 0"
proof -
  let ?ph = "''data:image/jpeg;base64,AAAA''"
  let ?t = "\<lparr>status = ''SUCCEEDED'', task_output = None\<rparr>"
  let ?w0 = "issue (ImageToVideoCreate ?ph) idle"
  have c: "imageToVideo_create no_output_backends ?ph = Inr ''42''"
    by (simp add: no_output_backends_def)
  have r: "\<forall>j<2. \<exists>t. tasks_retrieve no_output_backends (polls ?w0 + j) ''42'' = Inr t \<and>
             \<not> (status t \<in> set [''SUCCEEDED'', ''FAILED''])"
    by (simp add: no_output_backends_def)
  have l: "tasks_retrieve no_output_backends (polls ?w0 + 2) ''42'' = Inr ?t"
    by (simp add: no_output_backends_def)
  have t: "status ?t \<in> set [''SUCCEEDED'', ''FAILED'']" by simp
  have f: "(2::nat) < 3" by simp
  note p = poll_finds_terminal [OF r l t f]
  have run: "generateVideoFromRunwayML 3 no_output_backends ''cricket'' ?ph ''video-7.mp4'' idle =
          (Some (Inl (Error ''Task output is undefined or empty.'')),
           ?w0\<lparr>events := events ?w0 @ poll_calls (Suc 2) ''42''\<rparr>)"
    unfolding video_unfold [OF c p] by (simp add: first_output_def falsy_def)
  show ?thesis
    unfolding run by (simp add: no_output_backends_def issued_def idle_def)
qed

text \<open>
  C9, as amended. When the polling loop has ended on a SUCCEEDED task, the generator
  issues no output fetch exactly when the task carries no non-empty first output
  reference, and it then fails with \<open>Task output is undefined or empty.\<close> in the world the
  loop left; otherwise it issues exactly one output fetch, of that reference. An output
  fetch that gets a response fails exactly when the status code is not 200 or the stream
  ends with an error; with a status code other than 200 the error names the code, and with
  status 200 and a stream that ends normally the fetch resolves with the concatenation of
  the chunks.
\<close>

theorem succeeded_job_output_and_fetch:
  assumes "imageToVideo_create b ph = Inr tid"
      and "poll n b tid (issue (ImageToVideoCreate ph) w) = (Some (Inr t), w1)"
      and "status t = ''SUCCEEDED''"
      and "generateVideoFromRunwayML n b sp ph name w = (r, w')"
  shows "(falsy (first_output t) \<longleftrightarrow> filter is_https_get (issued w1 w') = []) \<and>
         (falsy (first_output t) \<longrightarrow>
            r = Some (Inl (Error ''Task output is undefined or empty.'')) \<and> w' = w1) \<and>
         (\<not> falsy (first_output t) \<longrightarrow>
            filter is_https_get (issued w1 w') = [HttpsGet (the (first_output t))]) \<and>
         (\<forall>u w0 resp. https_get b u = Response resp \<longrightarrow>
            ((\<exists>err. fst (fetchVideoAsBuffer b u w0) = Some (Inl err)) \<longleftrightarrow>
               statusCode resp \<noteq> 200 \<or> stream_error resp \<noteq> None) \<and>
            (statusCode resp \<noteq> 200 \<longrightarrow>
               fst (fetchVideoAsBuffer b u w0) =
                 Some (Inl (Error (''Failed to fetch video. Status code: '' @
                                   string_of_nat (statusCode resp))))) \<and>
            (statusCode resp = 200 \<and> stream_error resp = None \<longrightarrow>
               fst (fetchVideoAsBuffer b u w0) = Some (Inr (concat (chunks resp)))))"
proof -
  have absent: "r = Some (Inl (Error ''Task output is undefined or empty.'')) \<and> w' = w1"
    if "falsy (first_output t)"
    using video_unfold [OF assms(1,2), of sp name] assms(3,4) that by simp
  have present: "filter is_https_get (issued w1 w') = [HttpsGet (the (first_output t))]"
    if nf: "\<not> falsy (first_output t)"
  proof -
    from video_fetches [OF assms(1,2,3) nf assms(4)] obtain new where
      ev: "events w' = events w1 @ HttpsGet (the (first_output t)) # new"
      and st: "\<forall>ev\<in>set new. is_store ev"
      by blast
    from st have "filter is_https_get new = []"
      by (auto simp: filter_empty_conv dest: store_not_other)
    with ev show ?thesis by (simp add: issued_def)
  qed
  have 1: "falsy (first_output t) \<longleftrightarrow> filter is_https_get (issued w1 w') = []"
  proof (cases "falsy (first_output t)")
    case True
    with absent have "w' = w1" by simp
    with True show ?thesis by (simp add: issued_def)
  next
    case False
    with present show ?thesis by simp
  qed
  have 4: "\<forall>u w0 resp. https_get b u = Response resp \<longrightarrow>
            ((\<exists>err. fst (fetchVideoAsBuffer b u w0) = Some (Inl err)) \<longleftrightarrow>
               statusCode resp \<noteq> 200 \<or> stream_error resp \<noteq> None) \<and>
            (statusCode resp \<noteq> 200 \<longrightarrow>
               fst (fetchVideoAsBuffer b u w0) =
                 Some (Inl (Error (''Failed to fetch video. Status code: '' @
                                   string_of_nat (statusCode resp))))) \<and>
            (statusCode resp = 200 \<and> stream_error resp = None \<longrightarrow>
               fst (fetchVideoAsBuffer b u w0) = Some (Inr (concat (chunks resp))))"
    by (auto simp: fetch_video_result split: option.splits)
  from 1 absent present 4 show ?thesis by blast
qed

theorem succeeded_job_output_and_fetch_witness:
  "filter is_https_get
     (issued (snd (poll 3 cricket_backends ''42''
                     (issue (ImageToVideoCreate ''data:image/jpeg;base64,AAAA'') idle)))
             (snd (generateVideoFromRunwayML 3 cricket_backends ''cricket''
                     ''data:image/jpeg;base64,AAAA'' ''video-7.mp4'' idle))) =
     [HttpsGet ''https://cdn/example.mp4''] \<and>
   fst (fetchVideoAsBuffer cricket_backends ''https://cdn/example.mp4'' idle) =
     Some (Inr ''ftypmdat'') \<and>
   (\<exists>err. fst (fetchVideoAsBuffer partial_backends ''https://cdn/example.mp4'' idle) =
            Some (Inl err))"
proof -
  let ?ph = "''data:image/jpeg;base64,AAAA''"
  let ?t = "\<lparr>status = ''SUCCEEDED'', task_output = Some [''https://cdn/example.mp4'']\<rparr>"
  let ?w0 = "issue (ImageToVideoCreate ?ph) idle"
  have c: "imageToVideo_create cricket_backends ?ph = Inr ''42''" by simp
  have r: "\<forall>j<2. \<exists>t. tasks_retrieve cricket_backends (polls ?w0 + j) ''42'' = Inr t \<and>
             \<not> (status t \<in> set [''SUCCEEDED'', ''FAILED''])" by simp
  have l: "tasks_retrieve cricket_backends (polls ?w0 + 2) ''42'' = Inr ?t" by simp
  have t: "status ?t \<in> set [''SUCCEEDED'', ''FAILED'']" by simp
  have f: "(2::nat) < 3" by simp
  have p: "poll 3 cricket_backends ''42'' ?w0 =
             (Some (Inr ?t), snd (poll 3 cricket_backends ''42'' ?w0))"
    unfolding poll_finds_terminal [OF r l t f] by simp
  have s: "status ?t = ''SUCCEEDED''" by simp
  have c': "imageToVideo_create partial_backends ?ph = Inr ''42''"
    by (simp add: partial_backends_def)
  have p': "poll 3 partial_backends ''42'' ?w0 =
             (Some (Inr ?t), snd (poll 3 cricket_backends ''42'' ?w0))"
    unfolding poll_finds_terminal [OF r l t f]
    by (rule trans [OF poll_finds_terminal [OF _ _ t f]]) (simp_all add: partial_backends_def)
  have g: "https_get cricket_backends ''https://cdn/example.mp4'' =
             Response \<lparr>statusCode = 200, chunks = [''ftyp'', ''mdat''], stream_error = None\<rparr>" by simp
  have g': "https_get partial_backends ''https://cdn/example.mp4'' =
             Response \<lparr>statusCode = 203, chunks = [''ftyp'', ''mdat''], stream_error = None\<rparr>"
    by (simp add: partial_backends_def)
  from succeeded_job_output_and_fetch [OF c p s prod.collapse [symmetric], of "''cricket''" "''video-7.mp4''"]
       succeeded_job_output_and_fetch [OF c' p' s prod.collapse [symmetric], of "''cricket''" "''video-7.mp4''"]
       g g'
  show ?thesis by (simp add: first_output_def falsy_def)
qed

text \<open>
  C9 as stated fails: a response with the 2xx status 203 and a complete body is rejected.
\<close>

theorem fetch_rejects_2xx_counterexample:
  "https_get partial_backends ''https://cdn/example.mp4'' =
     Response \<lparr>statusCode = 203, chunks = [''ftyp'', ''mdat''], stream_error = None\<rparr> \<and>
   fst (fetchVideoAsBuffer partial_backends ''https://cdn/example.mp4'' idle) =
     Some (Inl (Error ''Failed to fetch video. Status code: 203''))"
proof -
  have g: "https_get partial_backends ''https://cdn/example.mp4'' =
             Response \<lparr>statusCode = 203, chunks = [''ftyp'', ''mdat''], stream_error = None\<rparr>"
    by (simp add: partial_backends_def)
  show ?thesis
    unfolding fetch_video_result [OF g] using g by (simp add: string_of_nat.simps digit_def)
qed

text \<open>
  C2. A run of the route that answers with the envelope of status 200 had a non-empty
  \<open>sports\<close> and a non-empty \<open>photo\<close>, carries no error, and its data are three non-empty
  URLs that embed the same request id (the decimal digits of the clock reading) under the
  names \<open>script-\<close>id\<open>.txt\<close>, \<open>audio-\<close>id\<open>.mp3\<close> and \<open>video-\<close>id\<open>.mp4\<close> in the \<open>temp/\<close>
  directory of the bucket.
\<close>

theorem success_urls_share_request_id:
  assumes "POST n b w = (Some (Envelope 200 d errs), w')"
  shows "d = Success (''https://storage.googleapis.com/sehban/temp/script-'' @ randomId b @ ''.txt'')
                     (''https://storage.googleapis.com/sehban/temp/audio-'' @ randomId b @ ''.mp3'')
                     (''https://storage.googleapis.com/sehban/temp/video-'' @ randomId b @ ''.mp4'') \<and>
         scriptURL d \<noteq> [] \<and> voiceoverURL d \<noteq> [] \<and> videoURL d \<noteq> [] \<and> errs = None \<and>
         (\<exists>bd. request_json b = Inr bd \<and> \<not> falsy (sports bd) \<and> \<not> falsy (photo bd))"
proof -
  from assms obtain bd where bd: "request_json b = Inr bd" "\<not> falsy (sports bd)" "\<not> falsy (photo bd)"
    by (auto simp: POST_def split: sum.splits if_splits)
  from POST_stages [OF bd, of w n] assms
  obtain u w1 v w2 r3 w3 where
    e1: "generateVideoScriptUsingGemini b (the (sports bd)) (tempScriptName b) w = (Inr u, w1)" and
    e2: "generateVoiceoverUsingGoogleTTS b u (tempAudioName b) w1 = (Inr v, w2)" and
    e3: "generateVideoFromRunwayML n b (the (sports bd)) (the (photo bd)) (tempVideoName b) w2 = (r3, w3)" and
    p: "(Some (Envelope 200 d errs), w') =
              (case r3 of None \<Rightarrow> None
               | Some (Inl err) \<Rightarrow> Some (Envelope 500 NoData (Some (stringify err)))
               | Some (Inr vid) \<Rightarrow> Some (Envelope 200 (Success u v vid) None), w3)"
    by auto
  from p obtain vid where r3: "r3 = Some (Inr vid)" and d: "d = Success u v vid" and er: "errs = None"
    by (auto split: option.splits sum.splits)
  from script_returns [OF e1] have u: "u = publicUrl Temp (tempScriptName b)" by blast
  from voice_returns [OF e2] have v: "v = publicUrl Temp (tempAudioName b)" .
  from video_returns [OF e3 [unfolded r3]] have vid: "vid = publicUrl Temp (tempVideoName b)" .
  from d u v vid er bd show ?thesis by (auto simp: names)
qed

theorem success_urls_share_request_id_witness:
  "\<exists>w'. POST 3 cricket_backends idle =
          (Some (Envelope 200
             (Success ''https://storage.googleapis.com/sehban/temp/script-1746000000042.txt''
                      ''https://storage.googleapis.com/sehban/temp/audio-1746000000042.mp3''
                      ''https://storage.googleapis.com/sehban/temp/video-1746000000042.mp4'') None), w') \<and>
        randomId cricket_backends = ''1746000000042''"
  using success_urls_share_request_id [OF cricket_run] cricket_run cricket_id by simp

text \<open>
  C5. In every run of the route, observed for any number of polling iterations, a fetch
  of a script URL (the first action of the voiceover generator, on the URL it is invoked
  with) occurs only after the script generator has returned that very URL, which is the
  public URL of the script artifact. The trace up to the fetch is the text generation, the
  save of the script and its publication, immediately followed by the fetch; in the world
  at that moment the bucket holds the script, public, at the path behind the URL; and no
  other fetch of a script follows.
\<close>

theorem script_upload_precedes_voiceover:
  assumes "POST n b w = (r, w')" and "Fetch u \<in> set (issued w w')"
  shows "\<exists>bd s w1 rest.
           request_json b = Inr bd \<and>
           generateVideoScriptUsingGemini b (the (sports bd)) (tempScriptName b) w = (Inr u, w1) \<and>
           u = publicUrl Temp (tempScriptName b) \<and>
           bucket w1 (filePath Temp (tempScriptName b)) =
             Some \<lparr>contentType = ''text/plain'', payload = Text s, isPublic = True\<rparr> \<and>
           issued w w1 = [GenerateContent (prompt (the (sports bd))),
                          Save (filePath Temp (tempScriptName b)) ''text/plain'' (Text s),
                          MakePublic (filePath Temp (tempScriptName b))] \<and>
           issued w w' = issued w w1 @ Fetch u # rest \<and>
           (\<forall>ev\<in>set rest. \<not> is_fetch ev)"
proof -
  have nonempty: "issued w w' \<noteq> []" using assms(2) by auto
  have valid: "\<exists>bd. request_json b = Inr bd \<and> \<not> falsy (sports bd) \<and> \<not> falsy (photo bd)"
  proof (rule ccontr)
    assume "\<not> ?thesis"
    with assms(1) have "w' = w" by (auto simp: POST_def split: sum.splits if_splits)
    with nonempty show False by (simp add: issued_def)
  qed
  then obtain bd where bd: "request_json b = Inr bd" "\<not> falsy (sports bd)" "\<not> falsy (photo bd)"
    by blast
  let ?sp = "the (sports bd)"
  let ?path = "filePath Temp (tempScriptName b)"
  from POST_stages [OF bd, of w n]
  consider (script) err where
      "generateVideoScriptUsingGemini b ?sp (tempScriptName b) w = (Inl err, w')"
    | (later) v w1 rest where
      "generateVideoScriptUsingGemini b ?sp (tempScriptName b) w = (Inr v, w1)"
      "events w' = events w1 @ Fetch v # rest" "\<forall>ev\<in>set rest. \<not> is_fetch ev"
  proof (elim disjE exE conjE, goal_cases)
    case (1 err w1)
    with assms(1) show ?case by simp
  next
    case (2 v w1 err w2)
    from voice_frame [OF 2(4)] obtain rest where "events w2 = events w1 @ Fetch v # rest"
      "\<forall>ev\<in>set rest. \<not> is_fetch ev" by (elim exE conjE)
    with 2 assms(1) show ?case by simp
  next
    case (3 v w1 a w2 r3 w3)
    from voice_frame [OF 3(4)] obtain rest where r: "events w2 = events w1 @ Fetch v # rest"
      "\<forall>ev\<in>set rest. \<not> is_fetch ev" by (elim exE conjE)
    from video_frame [OF 3(5)] obtain new where n: "events w3 = events w2 @ new"
      "\<forall>ev\<in>set new. \<not> is_fetch ev" by (elim exE conjE)
    from 3(6) assms(1) have "w' = w3" by simp
    with r n have "events w' = events w1 @ Fetch v # (rest @ new)"
      "\<forall>ev\<in>set (rest @ new). \<not> is_fetch ev" by auto
    with 3 show ?case by blast
  qed
  then show ?thesis
  proof cases
    case script
    from script_frame [OF script] obtain new where "events w' = events w @ new"
      "\<forall>ev\<in>set new. \<not> is_fetch ev" by (elim exE conjE)
    then have "\<forall>ev\<in>set (issued w w'). \<not> is_fetch ev" by (simp add: issued_def)
    with assms(2) show ?thesis by fastforce
  next
    case later
    from script_returns [OF later(1)] obtain s where
      v: "v = publicUrl Temp (tempScriptName b)" and
      w1: "w1 = \<lparr>events = events w @ [GenerateContent (prompt ?sp),
                                          Save ?path ''text/plain'' (Text s),
                                          MakePublic ?path],
                   bucket = (bucket w)(?path \<mapsto>
                              \<lparr>contentType = ''text/plain'', payload = Text s, isPublic = True\<rparr>)\<rparr>"
      by (elim exE conjE)
    have i1: "issued w w1 = [GenerateContent (prompt ?sp), Save ?path ''text/plain'' (Text s),
                            MakePublic ?path]"
      by (simp add: w1 issued_def)
    have b1: "bucket w1 ?path = Some \<lparr>contentType = ''text/plain'', payload = Text s, isPublic = True\<rparr>"
      by (simp add: w1)
    have i: "issued w w' = issued w w1 @ Fetch v # rest"
      using later(2) by (simp add: w1 issued_def)
    from assms(2) have "u = v" unfolding i i1 using later(3) by auto
    with bd(1) later(1,3) v i1 b1 i show ?thesis by blast
  qed
qed

theorem script_upload_precedes_voiceover_witness:
  "Fetch ''https://storage.googleapis.com/sehban/temp/script-1746000000042.txt''
     \<in> set (issued idle (snd (POST 3 cricket_backends idle))) \<and>
   (\<exists>rest. issued idle (snd (POST 3 cricket_backends idle)) =
      [GenerateContent (prompt ''cricket''),
       Save ''temp/script-1746000000042.txt'' ''text/plain'' (Text ''Cricket began in southern England''),
       MakePublic ''temp/script-1746000000042.txt''] @
      Fetch ''https://storage.googleapis.com/sehban/temp/script-1746000000042.txt'' # rest)"
proof -
  let ?u = "''https://storage.googleapis.com/sehban/temp/script-1746000000042.txt''"
  let ?s = "''Cricket began in southern England''"
  have f: "Fetch ?u \<in> set (issued idle (snd (POST 3 cricket_backends idle)))"
    unfolding cricket_run by (simp add: issued_def idle_def)
  have e1: "generateVideoScriptUsingGemini cricket_backends ''cricket'' (tempScriptName cricket_backends) idle =
              (Inr (publicUrl Temp (tempScriptName cricket_backends)),
               \<lparr>events = events idle @ [GenerateContent (prompt ''cricket''),
                    Save (filePath Temp (tempScriptName cricket_backends)) ''text/plain'' (Text ?s),
                    MakePublic (filePath Temp (tempScriptName cricket_backends))],
                bucket = (bucket idle)(filePath Temp (tempScriptName cricket_backends) \<mapsto>
                    \<lparr>contentType = ''text/plain'', payload = Text ?s, isPublic = True\<rparr>)\<rparr>)"
    by (rule script_accepted) simp_all
  from script_upload_precedes_voiceover [OF prod.collapse [symmetric] f]
  obtain bd s w1 rest where
    bd: "request_json cricket_backends = Inr bd" and
    sc: "generateVideoScriptUsingGemini cricket_backends (the (sports bd)) (tempScriptName cricket_backends) idle = (Inr ?u, w1)" and
    i: "issued idle (snd (POST 3 cricket_backends idle)) = issued idle w1 @ Fetch ?u # rest"
    by blast
  from bd have sp: "the (sports bd) = ''cricket''" by auto
  from sc e1 have "w1 = \<lparr>events = events idle @ [GenerateContent (prompt ''cricket''),
                    Save (filePath Temp (tempScriptName cricket_backends)) ''text/plain'' (Text ?s),
                    MakePublic (filePath Temp (tempScriptName cricket_backends))],
                bucket = (bucket idle)(filePath Temp (tempScriptName cricket_backends) \<mapsto>
                    \<lparr>contentType = ''text/plain'', payload = Text ?s, isPublic = True\<rparr>)\<rparr>"
    unfolding sp by simp
  then have "issued idle w1 = [GenerateContent (prompt ''cricket''),
       Save ''temp/script-1746000000042.txt'' ''text/plain'' (Text ?s),
       MakePublic ''temp/script-1746000000042.txt'']"
    by (simp add: issued_def idle_def names cricket_id)
  with i f show ?thesis by simp
qed

text \<open>
  C6 fails on the code. The failure of a stage is not surfaced with its message, and a
  failed download is not surfaced at all. When Gemini answers without text, the script
  generator throws \<^verbatim>\<open>new Error('Failed to generate a script. The response is empty.')\<close>
  and the route answers with the envelope whose status field is 500 and whose data are
  empty, but the thrown error is serialised to \<^verbatim>\<open>{}\<close>, so the message is not in the
  answer, and the HTTP status of the answer is 200. When the connection of the download
  is refused after a SUCCEEDED job, the route gives no answer, whatever the number of loop
  iterations observed.
\<close>

theorem stage_failure_is_not_surfaced:
  "generateVideoScriptUsingGemini silent_backends ''cricket'' (tempScriptName silent_backends) idle =
     (Inl (Error ''Failed to generate a script. The response is empty.''),
      issue (GenerateContent (prompt ''cricket'')) idle) \<and>
   fst (POST 3 silent_backends idle) = Some (Envelope 500 NoData (Some ''{}'')) \<and>
   http_status (Envelope 500 NoData (Some ''{}'')) = 200 \<and>
   \<not> (\<exists>n. fst (POST n refused_backends idle) \<noteq> None)"
  using silent_run [of 3] refused_run by simp

text \<open>
  C7 fails on the code. Two different requests whose clock reading is the same millisecond
  get the same id and so the same three artifact names: the later request answers with the
  same URLs as the earlier one and replaces the script stored by the earlier one.
\<close>

theorem same_millisecond_requests_collide:
  "date_now football_backends = date_now cricket_backends \<and>
   request_json football_backends \<noteq> request_json cricket_backends \<and>
   tempScriptName football_backends = tempScriptName cricket_backends \<and>
   tempAudioName football_backends = tempAudioName cricket_backends \<and>
   tempVideoName football_backends = tempVideoName cricket_backends \<and>
   bucket (snd (POST 3 cricket_backends idle)) ''temp/script-1746000000042.txt'' =
     Some \<lparr>contentType = ''text/plain'', payload = Text ''Cricket began in southern England'',
           isPublic = True\<rparr> \<and>
   fst (POST 3 football_backends (snd (POST 3 cricket_backends idle))) =
     fst (POST 3 cricket_backends idle) \<and>
   bucket (snd (POST 3 football_backends (snd (POST 3 cricket_backends idle))))
       ''temp/script-1746000000042.txt'' =
     Some \<lparr>contentType = ''text/plain'', payload = Text ''Football took shape in England'',
           isPublic = True\<rparr>"
proof -
  have d: "date_now football_backends = date_now cricket_backends" by simp
  note same_clock_same_names [OF d]
  moreover have "request_json football_backends \<noteq> request_json cricket_backends" by simp
  moreover have "bucket (snd (POST 3 cricket_backends idle)) ''temp/script-1746000000042.txt'' =
     Some \<lparr>contentType = ''text/plain'', payload = Text ''Cricket began in southern England'',
           isPublic = True\<rparr>"
    unfolding cricket_run by simp
  moreover have "fst (POST 3 football_backends (snd (POST 3 cricket_backends idle))) =
     fst (POST 3 cricket_backends idle)"
    unfolding football_run unfolding cricket_run by simp
  moreover have "bucket (snd (POST 3 football_backends (snd (POST 3 cricket_backends idle))))
       ''temp/script-1746000000042.txt'' =
     Some \<lparr>contentType = ''text/plain'', payload = Text ''Football took shape in England'',
           isPublic = True\<rparr>"
    unfolding football_run by simp
  ultimately show ?thesis using d by blast
qed

end
